theory Spec2Isabelle
  imports Complex_Main "HOL-Library.Log_Nat"
begin

section \<open>Python values used by app.py\<close>

text \<open>
  Exceptions that the modelled code can raise.  \<open>ExifReadError\<close> is the exception class
  named by the inner handler of \<open>process_images\<close>; \<open>OtherException\<close> stands for every
  other subclass of \<open>Exception\<close> (an \<open>OSError\<close> from \<open>open\<close>, an error inside the tag
  reader, ...).  Both carry the text that \<open>str(e)\<close> yields.
\<close>

datatype exn =
    ZeroDivisionError
  | IndexError
  | ValueError
  | OverflowError
  | ExifReadError string
  | OtherException string

subsection \<open>Double-precision arithmetic\<close>

text \<open>
  A Python \<open>float\<close> is an IEEE-754 double.  A finite double is modelled by the real number
  it denotes, and every arithmetic operation rounds the exact result to the nearest
  double, ties to even (\<open>fl\<close>).  The exponent range is not modelled: the operands of
  \<open>dms_to_decimal\<close> are quotients of EXIF's 32-bit integers, far from overflow and from
  the subnormal numbers.
\<close>

definition round_half_even :: "real \<Rightarrow> int" where
  "round_half_even x =
     (let f = \<lfloor>x\<rfloor>; d = x - of_int f
      in if d < 1 / 2 then f else if 1 / 2 < d then f + 1 else if even f then f else f + 1)"

text \<open>\<open>binade x\<close> is the exponent \<open>e\<close> with \<open>2 ^ e \<le> |x| < 2 ^ (e + 1)\<close>, for \<open>x \<noteq> 0\<close>.\<close>

definition binade :: "real \<Rightarrow> int" where
  "binade x = (if 1 \<le> \<bar>x\<bar> then bitlen \<lfloor>\<bar>x\<bar>\<rfloor> - 1 else - bitlen (\<lceil>1 / \<bar>x\<bar>\<rceil> - 1))"

text \<open>Rounding to 53 significant bits.\<close>

definition fl :: "real \<Rightarrow> real" where
  "fl x = (if x = 0 then 0
           else let e = binade x
                in of_int (round_half_even (x * 2 powi (52 - e))) * 2 powi (e - 52))"

text \<open>\<open>float(n)\<close> for a Python int.\<close>

definition float_of_int :: "int \<Rightarrow> real" where
  "float_of_int n = fl (of_int n)"

text \<open>\<open>a / b\<close> on floats: raises \<open>ZeroDivisionError\<close> when the divisor is zero.\<close>

definition float_div :: "real \<Rightarrow> real \<Rightarrow> exn + real" where
  "float_div a b = (if b = 0 then Inl ZeroDivisionError else Inr (fl (a / b)))"

text \<open>\<open>a + b\<close> on floats.\<close>

definition float_add :: "real \<Rightarrow> real \<Rightarrow> real" where
  "float_add a b = fl (a + b)"

section \<open>GPS conversion\<close>

text \<open>
  exifread's \<open>Ratio\<close>: the two integers of an EXIF rational, read through \<open>.num\<close> and
  \<open>.den\<close>.  A denominator of zero is a value the tag reader can deliver.
\<close>

record ratio =
  num :: int
  den :: int

text \<open>
  \<open>float(dms[i].num) / float(dms[i].den)\<close>: the index is evaluated first, so a short
  tuple raises \<open>IndexError\<close> before any division.
\<close>

definition dms_component :: "ratio list \<Rightarrow> nat \<Rightarrow> exn + real" where
  "dms_component dms i =
     (if i < length dms
      then float_div (float_of_int (num (dms ! i))) (float_of_int (den (dms ! i)))
      else Inl IndexError)"

text \<open>
  \<^verbatim>\<open>
  def dms_to_decimal(dms, ref):
      degrees = float(dms[0].num) / float(dms[0].den)
      minutes = float(dms[1].num) / float(dms[1].den)
      seconds = float(dms[2].num) / float(dms[2].den)
      dec = degrees + (minutes / 60.0) + (seconds / 3600.0)
      if ref in ['S', 'W']:
          dec = -dec
      return dec
  \<close>
\<close>

definition dms_to_decimal :: "ratio list \<Rightarrow> string \<Rightarrow> exn + real" where
  "dms_to_decimal dms ref =
     (case dms_component dms 0 of Inl e \<Rightarrow> Inl e | Inr degrees \<Rightarrow>
     (case dms_component dms 1 of Inl e \<Rightarrow> Inl e | Inr minutes \<Rightarrow>
     (case dms_component dms 2 of Inl e \<Rightarrow> Inl e | Inr seconds \<Rightarrow>
        let dec = float_add (float_add degrees (fl (minutes / 60))) (fl (seconds / 3600))
        in Inr (if ref \<in> set [''S'', ''W''] then - dec else dec))))"

text \<open>The value the specification asks for, in exact rational arithmetic.\<close>

definition ratio_value :: "ratio \<Rightarrow> real" where
  "ratio_value r = of_int (num r) / of_int (den r)"

definition dms_exact :: "ratio \<Rightarrow> ratio \<Rightarrow> ratio \<Rightarrow> real" where
  "dms_exact d m s = ratio_value d + ratio_value m / 60 + ratio_value s / 3600"

text \<open>
  Bookkeeping for the rounding analysis: \<open>near k y x\<close> says that \<open>y\<close> is \<open>x\<close> after at most
  \<open>k\<close> roundings, each with relative error at most \<open>2 ^ - 53\<close>.
\<close>

definition near :: "nat \<Rightarrow> real \<Rightarrow> real \<Rightarrow> bool" where
  "near k y x \<longleftrightarrow> x * (1 - 1 / 2 ^ 53) ^ k \<le> y \<and> y \<le> x * (1 + 1 / 2 ^ 53) ^ k"

section \<open>Location resolver\<close>

text \<open>
  In the distance computation the doubles of the source are read as the real numbers they
  denote and \<open>math.sin\<close>, \<open>math.cos\<close>, \<open>math.asin\<close>, \<open>math.sqrt\<close> as the real functions.
  The cosine in the longitude buffer is different: whether the division raises depends
  on whether the library returns exactly zero, and the double-precision cosine does not
  vanish where the real one does (\<open>math.cos(math.radians(90.0))\<close> is
  \<open>6.123233995736766e-17\<close>).  There the value that \<open>math.cos(math.radians(lat))\<close>
  returns is a parameter of the model, the function \<open>dcos\<close>.
\<close>

definition radians :: "real \<Rightarrow> real" where
  "radians d = d * pi / 180"

text \<open>
  \<^verbatim>\<open>
  def haversine_distance(lat1, lon1, lat2, lon2):
      R = 6371
      dlat = math.radians(lat2 - lat1)
      dlon = math.radians(lon2 - lon1)
      a = math.sin(dlat/2)**2 + math.cos(math.radians(lat1)) * math.cos(math.radians(lat2)) * math.sin(dlon/2)**2
      c = 2 * math.asin(math.sqrt(a))
      return R * c
  \<close>
  \<open>math.sqrt\<close> raises \<open>ValueError\<close> below zero and \<open>math.asin\<close> outside \<open>[-1, 1]\<close>.
\<close>

definition haversine_a :: "real \<Rightarrow> real \<Rightarrow> real \<Rightarrow> real \<Rightarrow> real" where
  "haversine_a lat1 lon1 lat2 lon2 =
     (let dlat = radians (lat2 - lat1); dlon = radians (lon2 - lon1)
      in (sin (dlat / 2))\<^sup>2 + cos (radians lat1) * cos (radians lat2) * (sin (dlon / 2))\<^sup>2)"

definition haversine_distance :: "real \<Rightarrow> real \<Rightarrow> real \<Rightarrow> real \<Rightarrow> exn + real" where
  "haversine_distance lat1 lon1 lat2 lon2 =
     (let R = 6371; a = haversine_a lat1 lon1 lat2 lon2
      in if a < 0 then Inl ValueError
         else if 1 < sqrt a then Inl ValueError
         else let c = 2 * arcsin (sqrt a) in Inr (R * c))"

text \<open>The great-circle distance in kilometres, as a number.\<close>

definition haversine_km :: "real \<Rightarrow> real \<Rightarrow> real \<Rightarrow> real \<Rightarrow> real" where
  "haversine_km lat1 lon1 lat2 lon2 = 6371 * (2 * arcsin (sqrt (haversine_a lat1 lon1 lat2 lon2)))"

text \<open>
  A row of the \<open>locations\<close> table.  The text columns are nullable; \<open>latitude\<close> and
  \<open>longitude\<close> are never null, since \<open>import_locations_to_db\<close> inserts a row only when
  both are present.
\<close>

record geoplace =
  geonameid :: int
  name :: "string option"
  asciiname :: "string option"
  latitude :: real
  longitude :: real
  feature_class :: "string option"
  feature_code :: "string option"
  country_code :: "string option"
  admin1_code :: "string option"
  admin2_code :: "string option"

text \<open>Python's truth value of a nullable string: \<open>None\<close> and the empty string are false.\<close>

definition truthy_str :: "string option \<Rightarrow> bool" where
  "truthy_str s = (case s of None \<Rightarrow> False | Some t \<Rightarrow> t \<noteq> [])"

text \<open>\<open>", ".join(parts)\<close>\<close>

fun join_comma :: "string list \<Rightarrow> string" where
  "join_comma [] = []"
| "join_comma [p] = p"
| "join_comma (p # q # ps) = p @ '', '' @ join_comma (q # ps)"

text \<open>
  \<^verbatim>\<open>
  def format_location_string(name, admin1_code, country_code):
      if not name:
          return None
      parts = [name]
      if admin1_code:
          parts.append(admin1_code)
      if country_code:
          parts.append(country_code)
      return ", ".join(parts)
  \<close>
\<close>

definition format_location_string :: "string option \<Rightarrow> string option \<Rightarrow> string option \<Rightarrow> string option" where
  "format_location_string nm admin1 country =
     (if \<not> truthy_str nm then None
      else let parts = [the nm];
               parts = (if truthy_str admin1 then parts @ [the admin1] else parts);
               parts = (if truthy_str country then parts @ [the country] else parts)
           in Some (join_comma parts))"

text \<open>
  The bounding box of \<open>find_nearest_location\<close>:
  \<^verbatim>\<open>
  lat_buffer = max_distance_km / 111.0
  lon_buffer = max_distance_km / (111.0 * abs(math.cos(math.radians(lat))))
  \<close>
  The second division raises \<open>ZeroDivisionError\<close> when the product is zero; \<open>dcos lat\<close> is
  the double that \<open>math.cos(math.radians(lat))\<close> returns.
\<close>

definition bounding_buffers :: "(real \<Rightarrow> real) \<Rightarrow> real \<Rightarrow> real \<Rightarrow> exn + real \<times> real" where
  "bounding_buffers dcos lat max_distance_km =
     (let lat_buffer = max_distance_km / 111
      in if 111 * \<bar>dcos lat\<bar> = 0 then Inl ZeroDivisionError
         else Inr (lat_buffer, max_distance_km / (111 * \<bar>dcos lat\<bar>)))"

text \<open>
  The query \<open>WHERE latitude BETWEEN ? AND ? AND longitude BETWEEN ? AND ?\<close>, both ends
  inclusive.  SQL leaves the order of the result open: the table is given as the list of
  its rows in the order in which the query returns them.
\<close>

definition in_box :: "real \<Rightarrow> real \<Rightarrow> real \<Rightarrow> real \<Rightarrow> geoplace \<Rightarrow> bool" where
  "in_box lat lon lat_buffer lon_buffer r \<longleftrightarrow>
     lat - lat_buffer \<le> latitude r \<and> latitude r \<le> lat + lat_buffer \<and>
     lon - lon_buffer \<le> longitude r \<and> longitude r \<le> lon + lon_buffer"

definition box_query :: "real \<Rightarrow> real \<Rightarrow> real \<Rightarrow> real \<Rightarrow> geoplace list \<Rightarrow> geoplace list" where
  "box_query lat lon lat_buffer lon_buffer table = filter (in_box lat lon lat_buffer lon_buffer) table"

text \<open>
  The candidate loop.  \<open>min_distance\<close> starts at \<open>float('inf')\<close>, modelled by \<open>None\<close>;
  \<open>nearest_location_data\<close> starts at \<open>None\<close>.  The loop ends in one of three ways: the
  shutdown flag is seen and the function returns \<open>None\<close>, the distance computation
  raises, or the loop is left (at its end or by \<open>break\<close>) with the two variables.
  \<open>sd k\<close> is the value of the global \<open>shutdown_requested\<close> at the \<open>k\<close>-th time the function
  reads it: \<open>sd 0\<close> on entry, \<open>sd (Suc i)\<close> before candidate \<open>i\<close>.
\<close>

type_synonym location_data = "string option \<times> string option \<times> string option"

datatype scan_end =
    Shutdown
  | Raised exn
  | Left "real option" "location_data option"

definition less_min :: "real \<Rightarrow> real option \<Rightarrow> bool" where
  "less_min d m = (case m of None \<Rightarrow> True | Some x \<Rightarrow> d < x)"

fun scan_candidates ::
  "(nat \<Rightarrow> bool) \<Rightarrow> nat \<Rightarrow> real \<Rightarrow> real \<Rightarrow> geoplace list \<Rightarrow> real option \<Rightarrow> location_data option \<Rightarrow> scan_end" where
  "scan_candidates sd i lat lon [] min_distance nearest = Left min_distance nearest"
| "scan_candidates sd i lat lon (c # cs) min_distance nearest =
     (if sd (Suc i) then Shutdown
      else case haversine_distance lat lon (latitude c) (longitude c) of
             Inl e \<Rightarrow> Raised e
           | Inr distance \<Rightarrow>
               if less_min distance min_distance
               then if distance < 1 / 2
                    then Left (Some distance) (Some (name c, admin1_code c, country_code c))
                    else scan_candidates sd (Suc i) lat lon cs
                           (Some distance) (Some (name c, admin1_code c, country_code c))
               else scan_candidates sd (Suc i) lat lon cs min_distance nearest)"

text \<open>\<open>min_distance <= max_distance_km\<close>, with \<open>float('inf')\<close> above every number.\<close>

definition min_le :: "real option \<Rightarrow> real \<Rightarrow> bool" where
  "min_le m x = (case m of None \<Rightarrow> False | Some d \<Rightarrow> d \<le> x)"

text \<open>
  The body of the \<open>try\<close> block of \<open>find_nearest_location\<close>.  The table is \<open>None\<close> when the
  query itself fails (no \<open>locations\<close> table in the store).
\<close>

definition find_nearest_location_try ::
  "(real \<Rightarrow> real) \<Rightarrow> (nat \<Rightarrow> bool) \<Rightarrow> real \<Rightarrow> real \<Rightarrow> geoplace list option \<Rightarrow> real \<Rightarrow> exn + string option" where
  "find_nearest_location_try dcos sd lat lon table max_distance_km =
     (case bounding_buffers dcos lat max_distance_km of
        Inl e \<Rightarrow> Inl e
      | Inr (lat_buffer, lon_buffer) \<Rightarrow>
         (case table of
            None \<Rightarrow> Inl (OtherException ''no such table: locations'')
          | Some rows \<Rightarrow>
             let candidates = box_query lat lon lat_buffer lon_buffer rows
             in if candidates = [] then Inr None
                else (case scan_candidates sd 0 lat lon candidates None None of
                        Shutdown \<Rightarrow> Inr None
                      | Raised e \<Rightarrow> Inl e
                      | Left min_distance nearest_location_data \<Rightarrow>
                         (case nearest_location_data of
                            Some (nm, admin1, country) \<Rightarrow>
                              if min_le min_distance max_distance_km
                              then Inr (format_location_string nm admin1 country)
                              else Inr None
                          | None \<Rightarrow> Inr None))))"

text \<open>
  \<open>find_nearest_location\<close>: the flag is read first; \<open>except Exception\<close> turns every
  exception of the body into the result \<open>None\<close>.
\<close>

definition find_nearest_location ::
  "(real \<Rightarrow> real) \<Rightarrow> (nat \<Rightarrow> bool) \<Rightarrow> real \<Rightarrow> real \<Rightarrow> geoplace list option \<Rightarrow> real \<Rightarrow> string option" where
  "find_nearest_location dcos sd lat lon table max_distance_km =
     (if sd 0 then None
      else case find_nearest_location_try dcos sd lat lon table max_distance_km of
             Inl e \<Rightarrow> None
           | Inr r \<Rightarrow> r)"

text \<open>
  The exhaustive scan the specification compares with: the same loop without the
  \<open>break\<close>, so that every candidate is measured.
\<close>

fun scan_exhaustive ::
  "(nat \<Rightarrow> bool) \<Rightarrow> nat \<Rightarrow> real \<Rightarrow> real \<Rightarrow> geoplace list \<Rightarrow> real option \<Rightarrow> location_data option \<Rightarrow> scan_end" where
  "scan_exhaustive sd i lat lon [] min_distance nearest = Left min_distance nearest"
| "scan_exhaustive sd i lat lon (c # cs) min_distance nearest =
     (if sd (Suc i) then Shutdown
      else case haversine_distance lat lon (latitude c) (longitude c) of
             Inl e \<Rightarrow> Raised e
           | Inr distance \<Rightarrow>
               if less_min distance min_distance
               then scan_exhaustive sd (Suc i) lat lon cs
                      (Some distance) (Some (name c, admin1_code c, country_code c))
               else scan_exhaustive sd (Suc i) lat lon cs min_distance nearest)"

definition find_nearest_exhaustive ::
  "(real \<Rightarrow> real) \<Rightarrow> (nat \<Rightarrow> bool) \<Rightarrow> real \<Rightarrow> real \<Rightarrow> geoplace list option \<Rightarrow> real \<Rightarrow> string option" where
  "find_nearest_exhaustive dcos sd lat lon table max_distance_km =
     (if sd 0 then None
      else case bounding_buffers dcos lat max_distance_km of
        Inl e \<Rightarrow> None
      | Inr (lat_buffer, lon_buffer) \<Rightarrow>
         (case table of
            None \<Rightarrow> None
          | Some rows \<Rightarrow>
             let candidates = box_query lat lon lat_buffer lon_buffer rows
             in if candidates = [] then None
                else (case scan_exhaustive sd 0 lat lon candidates None None of
                        Shutdown \<Rightarrow> None
                      | Raised e \<Rightarrow> None
                      | Left min_distance nearest_location_data \<Rightarrow>
                         (case nearest_location_data of
                            Some (nm, admin1, country) \<Rightarrow>
                              if min_le min_distance max_distance_km
                              then format_location_string nm admin1 country
                              else None
                          | None \<Rightarrow> None))))"

text \<open>
  The behaviour the specification describes at the poles: at a latitude of exactly 90
  or -90 degrees, or wherever the cosine term is zero, there is no horizontal buffer,
  that is a box of zero width in longitude.
\<close>

definition bounding_buffers_degenerate :: "(real \<Rightarrow> real) \<Rightarrow> real \<Rightarrow> real \<Rightarrow> real \<times> real" where
  "bounding_buffers_degenerate dcos lat max_distance_km =
     (let lat_buffer = max_distance_km / 111
      in if \<bar>lat\<bar> = 90 \<or> 111 * \<bar>dcos lat\<bar> = 0 then (lat_buffer, 0)
         else (lat_buffer, max_distance_km / (111 * \<bar>dcos lat\<bar>)))"

definition find_nearest_degenerate ::
  "(real \<Rightarrow> real) \<Rightarrow> (nat \<Rightarrow> bool) \<Rightarrow> real \<Rightarrow> real \<Rightarrow> geoplace list option \<Rightarrow> real \<Rightarrow> string option" where
  "find_nearest_degenerate dcos sd lat lon table max_distance_km =
     (if sd 0 then None
      else case bounding_buffers_degenerate dcos lat max_distance_km of
        (lat_buffer, lon_buffer) \<Rightarrow>
         (case table of
            None \<Rightarrow> None
          | Some rows \<Rightarrow>
             let candidates = box_query lat lon lat_buffer lon_buffer rows
             in if candidates = [] then None
                else (case scan_candidates sd 0 lat lon candidates None None of
                        Shutdown \<Rightarrow> None
                      | Raised e \<Rightarrow> None
                      | Left min_distance nearest_location_data \<Rightarrow>
                         (case nearest_location_data of
                            Some (nm, admin1, country) \<Rightarrow>
                              if min_le min_distance max_distance_km
                              then format_location_string nm admin1 country
                              else None
                          | None \<Rightarrow> None))))"

subsection \<open>Notions used to state the resolver's properties\<close>

text \<open>The distance of a candidate row from the query point, and the data the loop keeps.\<close>

definition cand_km :: "real \<Rightarrow> real \<Rightarrow> geoplace \<Rightarrow> real" where
  "cand_km lat lon c = haversine_km lat lon (latitude c) (longitude c)"

definition cand_data :: "geoplace \<Rightarrow> location_data" where
  "cand_data c = (name c, admin1_code c, country_code c)"

text \<open>
  The loop variables are either both unset or hold the distance and the data of one of
  the candidates \<open>cs\<close>.
\<close>

definition acc_ok :: "real \<Rightarrow> real \<Rightarrow> geoplace list \<Rightarrow> real option \<Rightarrow> location_data option \<Rightarrow> bool" where
  "acc_ok lat lon cs m n \<longleftrightarrow>
     (m = None \<and> n = None) \<or> (\<exists>c \<in> set cs. m = Some (cand_km lat lon c) \<and> n = Some (cand_data c))"

text \<open>The rows that the query of \<open>find_nearest_location\<close> returns.\<close>

definition box_candidates ::
  "(real \<Rightarrow> real) \<Rightarrow> real \<Rightarrow> real \<Rightarrow> geoplace list option \<Rightarrow> real \<Rightarrow> geoplace list" where
  "box_candidates dcos lat lon table max_distance_km =
     (case bounding_buffers dcos lat max_distance_km of
        Inl e \<Rightarrow> []
      | Inr (lat_buffer, lon_buffer) \<Rightarrow>
         (case table of None \<Rightarrow> [] | Some rows \<Rightarrow> box_query lat lon lat_buffer lon_buffer rows))"

definition format_candidate :: "geoplace \<Rightarrow> string option" where
  "format_candidate c = format_location_string (name c) (admin1_code c) (country_code c)"

text \<open>A run during which no shutdown is requested.\<close>

definition no_shutdown :: "nat \<Rightarrow> bool" where
  "no_shutdown k = False"

text \<open>
  A stand-in for \<open>math.cos(math.radians(lat))\<close> at the latitudes evaluated below: at 90
  and -90 degrees the double that the library returns there, \<open>0x1.1a62633145c07p-54\<close>
  (about \<open>6.12e-17\<close>), and elsewhere the real cosine, which at latitude 0 is the
  library's value 1.
\<close>

definition double_cos_radians :: "real \<Rightarrow> real" where
  "double_cos_radians lat = (if \<bar>lat\<bar> = 90 then 4967757600021511 / 2 ^ 106 else cos (radians lat))"

text \<open>A row of the table, for concrete tables.\<close>

definition place :: "int \<Rightarrow> string \<Rightarrow> real \<Rightarrow> real \<Rightarrow> geoplace" where
  "place gid nm la lo =
     \<lparr>geonameid = gid, name = Some nm, asciiname = Some nm, latitude = la, longitude = lo,
      feature_class = Some ''P'', feature_code = Some ''PPL'', country_code = Some ''XX'',
      admin1_code = None, admin2_code = None\<rparr>"

section \<open>Gazetteer import\<close>

subsection \<open>String operations\<close>

text \<open>
  Strings are taken over the code points below 256.  \<open>isspace\<close> is Python's
  \<open>str.isspace\<close> on them: tab, line feed, vertical tab, form feed, carriage return, the
  separators 28 to 31, space, next line (133) and no-break space (160).
\<close>

definition isspace :: "char \<Rightarrow> bool" where
  "isspace c \<longleftrightarrow> (of_char c :: nat) \<in> set [9, 10, 11, 12, 13, 28, 29, 30, 31, 32, 133, 160]"

text \<open>\<open>line.strip()\<close>\<close>

definition strip :: "string \<Rightarrow> string" where
  "strip s = rev (dropWhile isspace (rev (dropWhile isspace s)))"

text \<open>
  \<open>s.split(sep)\<close> for a one-character separator: the pieces between the separators, never
  an empty list (\<open>''.split(sep) == ['']\<close>).  \<open>cur\<close> holds the current piece, reversed.
\<close>

fun split_from :: "char \<Rightarrow> string \<Rightarrow> string \<Rightarrow> string list" where
  "split_from sep cur [] = [rev cur]"
| "split_from sep cur (c # cs) =
     (if c = sep then rev cur # split_from sep [] cs else split_from sep (c # cur) cs)"

definition split_on :: "char \<Rightarrow> string \<Rightarrow> string list" where
  "split_on sep s = split_from sep [] s"

definition tab :: char where
  "tab = CHR 0x09"

subsection \<open>Rows\<close>

text \<open>
  \<open>int\<close> and \<open>float\<close> are Python's built-in conversions of a string; they are parameters
  of the model, \<open>None\<close> standing for \<open>ValueError\<close>.
\<close>

type_synonym int_parser = "string \<Rightarrow> int option"
type_synonym float_parser = "string \<Rightarrow> real option"

text \<open>
  The state of the import: the \<open>locations\<close> table as the open transaction sees it, the
  table as last committed, and the two counters.  The counter \<open>error_count\<close> of
  \<open>import_locations_to_db\<close> is the field \<open>import_error_count\<close>.
\<close>

record import_state =
  locations_table :: "geoplace list"
  committed_table :: "geoplace list"
  imported_count :: nat
  import_error_count :: nat

text \<open>\<open>INSERT OR IGNORE\<close>: a row whose primary key is already in the table is dropped.\<close>

definition insert_or_ignore :: "geoplace \<Rightarrow> geoplace list \<Rightarrow> geoplace list" where
  "insert_or_ignore r t = (if geonameid r \<in> set (map geonameid t) then t else t @ [r])"

text \<open>\<open>fields[k] if len(fields) > k else None\<close>\<close>

definition field_or_none :: "string list \<Rightarrow> nat \<Rightarrow> string option" where
  "field_or_none flds k = (if k < length flds then Some (flds ! k) else None)"

text \<open>\<open>fields[k] if len(fields) > k and fields[k] else None\<close>\<close>

definition nonempty_field :: "string list \<Rightarrow> nat \<Rightarrow> string option" where
  "nonempty_field flds k = (if k < length flds \<and> flds ! k \<noteq> [] then Some (flds ! k) else None)"

text \<open>
  The conversions at the head of the inner \<open>try\<close> block, in the order of the source:
  \<^verbatim>\<open>
  geonameid = int(fields[0]) if fields[0] else None
  ...
  latitude = float(fields[4]) if len(fields) > 4 and fields[4] else None
  longitude = float(fields[5]) if len(fields) > 5 and fields[5] else None
  \<close>
  The result is the triple of the three values, or the exception of the first
  conversion that fails.  \<open>fields[0]\<close> exists: \<open>split\<close> never returns an empty list.
\<close>

definition convert_fields ::
  "int_parser \<Rightarrow> float_parser \<Rightarrow> string list \<Rightarrow> exn + int option \<times> real option \<times> real option" where
  "convert_fields py_int py_float flds =
     (case (if hd flds \<noteq> [] then (case py_int (hd flds) of None \<Rightarrow> Inl ValueError | Some n \<Rightarrow> Inr (Some n))
            else Inr None) of
        Inl e \<Rightarrow> Inl e
      | Inr gid \<Rightarrow>
         (case (case nonempty_field flds 4 of
                  None \<Rightarrow> Inr None
                | Some s \<Rightarrow> (case py_float s of None \<Rightarrow> Inl ValueError | Some x \<Rightarrow> Inr (Some x))) of
            Inl e \<Rightarrow> Inl e
          | Inr lat \<Rightarrow>
             (case (case nonempty_field flds 5 of
                      None \<Rightarrow> Inr None
                    | Some s \<Rightarrow> (case py_float s of None \<Rightarrow> Inl ValueError | Some x \<Rightarrow> Inr (Some x))) of
                Inl e \<Rightarrow> Inl e
              | Inr lon \<Rightarrow> Inr (gid, lat, lon))))"

text \<open>The row that is inserted.\<close>

definition row_of :: "string list \<Rightarrow> int \<Rightarrow> real \<Rightarrow> real \<Rightarrow> geoplace" where
  "row_of flds gid lat lon =
     \<lparr>geonameid = gid, name = field_or_none flds 1, asciiname = field_or_none flds 2,
      latitude = lat, longitude = lon,
      feature_class = field_or_none flds 6, feature_code = field_or_none flds 7,
      country_code = field_or_none flds 8,
      admin1_code = nonempty_field flds 10, admin2_code = nonempty_field flds 11\<rparr>"

text \<open>
  The body of the loop for one line, after the shutdown test and the periodic commit:
  \<^verbatim>\<open>
  fields = line.strip().split('\t')
  if len(fields) < 9:
      error_count += 1
      continue
  try:
      ... conversions ...
      if geonameid and latitude is not None and longitude is not None:
          cursor.execute('INSERT OR IGNORE ...')
          imported_count += 1
  except (ValueError, IndexError) as e:
      error_count += 1
      continue
  \<close>
  An exception of another class leaves the loop; it is the \<open>Inl\<close> result.  There is
  one: \<open>cursor.execute\<close> raises \<open>OverflowError\<close> for an id that does not fit SQLite's
  signed 64-bit integer.
\<close>

definition import_line :: "int_parser \<Rightarrow> float_parser \<Rightarrow> import_state \<Rightarrow> string \<Rightarrow> exn + import_state" where
  "import_line py_int py_float st line =
     (let flds = split_on tab (strip line)
      in if length flds < 9
         then Inr (st\<lparr>import_error_count := import_error_count st + 1\<rparr>)
         else (case convert_fields py_int py_float flds of
                 Inl ValueError \<Rightarrow> Inr (st\<lparr>import_error_count := import_error_count st + 1\<rparr>)
               | Inl IndexError \<Rightarrow> Inr (st\<lparr>import_error_count := import_error_count st + 1\<rparr>)
               | Inl e \<Rightarrow> Inl e
               | Inr (gid, lat, lon) \<Rightarrow>
                  (case (gid, lat, lon) of
                     (Some g, Some la, Some lo) \<Rightarrow>
                       if g \<noteq> 0
                       then if - (2 ^ 63) \<le> g \<and> g < 2 ^ 63
                            then Inr (st\<lparr>locations_table :=
                                           insert_or_ignore (row_of flds g la lo) (locations_table st),
                                         imported_count := imported_count st + 1\<rparr>)
                            else Inl OverflowError
                       else Inr st
                   | _ \<Rightarrow> Inr st)))"

definition commit :: "import_state \<Rightarrow> import_state" where
  "commit st = st\<lparr>committed_table := locations_table st\<rparr>"

definition rollback :: "import_state \<Rightarrow> import_state" where
  "rollback st = st\<lparr>locations_table := committed_table st\<rparr>"

text \<open>
  The loop over the lines of the file, from line number \<open>line_num\<close> on.  \<open>sd n\<close> is the
  value of \<open>shutdown_requested\<close> when line \<open>n\<close> is reached.  The result is the return value
  of \<open>import_locations_to_db\<close> with the final state: \<open>False\<close> after a shutdown or after an
  exception, which the outer handler answers with a rollback.
\<close>

fun import_lines ::
  "int_parser \<Rightarrow> float_parser \<Rightarrow> (nat \<Rightarrow> bool) \<Rightarrow> nat \<Rightarrow> string list \<Rightarrow> import_state \<Rightarrow> bool \<times> import_state" where
  "import_lines py_int py_float sd line_num [] st = (True, commit st)"
| "import_lines py_int py_float sd line_num (line # rest) st =
     (if sd line_num then (False, commit st)
      else let st1 = (if line_num mod 100000 = 0 then commit st else st)
           in (case import_line py_int py_float st1 line of
                 Inl e \<Rightarrow> (False, rollback st1)
               | Inr st2 \<Rightarrow> import_lines py_int py_float sd (Suc line_num) rest st2))"

text \<open>
  \<open>import_locations_to_db\<close> from the point where the table has been created: the lines of
  the gazetteer file are read into an empty table, numbered from 1.
\<close>

definition import_locations_to_db ::
  "int_parser \<Rightarrow> float_parser \<Rightarrow> (nat \<Rightarrow> bool) \<Rightarrow> string list \<Rightarrow> bool \<times> import_state" where
  "import_locations_to_db py_int py_float sd file_lines =
     import_lines py_int py_float sd 1 file_lines
       \<lparr>locations_table = [], committed_table = [], imported_count = 0, import_error_count = 0\<rparr>"

text \<open>
  Two concrete conversions, for evaluating concrete rows: they accept unsigned decimal
  numerals (digits, and for \<open>decimal_float\<close> at most one point among them) and give
  their exact value.  On these strings Python's \<open>int\<close> gives the same number and \<open>float\<close>
  the nearest double.
\<close>

definition digit_of :: "char \<Rightarrow> nat option" where
  "digit_of c = (let n = (of_char c :: nat) in if 48 \<le> n \<and> n \<le> 57 then Some (n - 48) else None)"

fun digits_value :: "string \<Rightarrow> nat \<Rightarrow> nat option" where
  "digits_value [] acc = Some acc"
| "digits_value (c # cs) acc =
     (case digit_of c of None \<Rightarrow> None | Some d \<Rightarrow> digits_value cs (10 * acc + d))"

definition decimal_int :: int_parser where
  "decimal_int s = (if s = [] then None else map_option int (digits_value s 0))"

definition decimal_float :: float_parser where
  "decimal_float s =
     (let whole = takeWhile (\<lambda>c. c \<noteq> CHR ''.'') s;
          frac = drop (Suc (length whole)) s
      in if whole = [] \<and> frac = [] then None
         else (case (digits_value whole 0, digits_value frac 0) of
                 (Some w, Some f) \<Rightarrow> Some (real w + real f / 10 ^ length frac)
               | _ \<Rightarrow> None))"

text \<open>
  A gazetteer line with nine fields whose latitude field is empty, and the state of an
  import that has read nothing.
\<close>

definition paris_no_latitude :: string where
  "paris_no_latitude =
     ''2988507'' @ [tab] @ ''Paris'' @ [tab] @ ''Paris'' @ [tab] @ ''Lutece'' @ [tab] @ [tab]
       @ ''2.3488'' @ [tab] @ ''P'' @ [tab] @ ''PPLC'' @ [tab] @ ''FR'' @ [CHR 0x0A]"

definition empty_import :: import_state where
  "empty_import = \<lparr>locations_table = [], committed_table = [], imported_count = 0, import_error_count = 0\<rparr>"

section \<open>The extraction pipeline\<close>

subsection \<open>Records of the store\<close>

text \<open>
  A row of the \<open>photos\<close> table, without the surrogate key \<open>id\<close>.  \<open>filepath\<close> is declared
  \<open>UNIQUE\<close> and every write is \<open>INSERT OR REPLACE\<close>, so the table is a map from file paths
  to rows.
\<close>

record photo =
  filename :: string
  filepath :: string
  datetime :: "string option"
  camera_model :: "string option"
  lens_model :: "string option"
  iso :: "string option"
  fnumber :: "string option"
  exposure_time :: "string option"
  focal_length :: "string option"
  orientation :: "string option"
  gps_lat :: "real option"
  gps_lon :: "real option"
  location :: "string option"
  status :: string
  file_hash :: "string option"
  file_mtime :: "real option"
  processed_at :: "string option"
  error_message :: "string option"

type_synonym photos_table = "string \<rightharpoonup> photo"

subsection \<open>What a file shows to one run\<close>

text \<open>
  The tags that \<open>exifread.process_file\<close> returns, restricted to the keys the pipeline
  reads.  A text field is \<open>None\<close> when the key is absent and otherwise holds \<open>str\<close> of
  the tag; the two GPS coordinates hold the tag's \<open>values\<close>.
\<close>

record exif_tags =
  exif_datetime_original :: "string option"
  image_datetime :: "string option"
  image_model :: "string option"
  exif_lens_model :: "string option"
  exif_iso_speed_ratings :: "string option"
  exif_fnumber :: "string option"
  exif_exposure_time :: "string option"
  exif_focal_length :: "string option"
  image_orientation :: "string option"
  gps_latitude :: "ratio list option"
  gps_latitude_ref :: "string option"
  gps_longitude :: "ratio list option"
  gps_longitude_ref :: "string option"

text \<open>
  What the operating system, the tag reader and the clock answer for one file during
  one run:
  \<^item> \<open>shutdown_requested\<close>: the global flag when the loop reaches the file;
  \<^item> \<open>path_exists\<close>: \<open>os.path.exists(filepath)\<close>;
  \<^item> \<open>mtime\<close>: \<open>get_file_mtime(filepath)\<close>, \<open>None\<close> when \<open>os.path.getmtime\<close> raises;
  \<^item> \<open>md5\<close>: \<open>calculate_file_hash(filepath)\<close>, \<open>None\<close> when the file cannot be read;
  \<^item> \<open>extraction\<close>: the outcome of \<open>open(filepath, 'rb')\<close> and
    \<open>exifread.process_file\<close>, an exception or the tags;
  \<^item> \<open>now\<close>: \<open>datetime.now().isoformat()\<close>;
  \<^item> \<open>lookup_polls\<close>: the values of the flag read inside \<open>find_nearest_location\<close>;
  \<^item> \<open>write_processed\<close>, \<open>write_failed_inner\<close>, \<open>write_failed_outer\<close>: what the store
    answers to the three \<open>INSERT OR REPLACE\<close> statements, the one of the success path,
    the one of the \<open>ExifReadError\<close> handler and the one of the outer handler: \<open>None\<close>
    when the row is written, \<open>Some msg\<close> when \<open>cursor.execute\<close> raises an exception
    with the text \<open>msg\<close> (sqlite3 raises \<open>UnicodeEncodeError\<close> for a path it cannot
    encode, for instance).  Such an exception is never an \<open>ExifReadError\<close>.
  A file does not change while it is being processed: the calls of \<open>get_file_mtime\<close> and
  \<open>calculate_file_hash\<close> for one file return the same value.  \<open>conn.commit()\<close> does not
  raise.
\<close>

record file_env =
  shutdown_requested :: bool
  path_exists :: bool
  mtime :: "real option"
  md5 :: "string option"
  extraction :: "exn + exif_tags"
  now :: string
  lookup_polls :: "nat \<Rightarrow> bool"
  write_processed :: "string option"
  write_failed_inner :: "string option"
  write_failed_outer :: "string option"

text \<open>
  The store and the counters of \<open>process_images\<close>.  \<open>opened\<close> is not a variable of the
  source: it lists, in order, the files that reached \<open>open(filepath, 'rb')\<close>, that is the
  files whose extraction was attempted.
\<close>

record run_state =
  photos :: photos_table
  image_count :: nat
  skipped_count :: nat
  error_count :: nat
  gps_count :: nat
  new_count :: nat
  updated_count :: nat
  opened :: "string list"

subsection \<open>Helpers\<close>

text \<open>Python's truth value of a nullable float: \<open>None\<close> and \<open>0.0\<close> are false.\<close>

definition truthy_float :: "real option \<Rightarrow> bool" where
  "truthy_float x = (case x of None \<Rightarrow> False | Some v \<Rightarrow> v \<noteq> 0)"

text \<open>\<open>os.path.basename\<close> on POSIX paths: what follows the last slash.\<close>

definition basename :: "string \<Rightarrow> string" where
  "basename p = rev (takeWhile (\<lambda>c. c \<noteq> CHR ''/'') (rev p))"

text \<open>\<open>str(e)\<close> for the exceptions of the model.\<close>

fun exn_str :: "exn \<Rightarrow> string" where
  "exn_str ZeroDivisionError = ''float division by zero''"
| "exn_str IndexError = ''list index out of range''"
| "exn_str ValueError = ''math domain error''"
| "exn_str OverflowError = ''Python int too large to convert to SQLite INTEGER''"
| "exn_str (ExifReadError msg) = msg"
| "exn_str (OtherException msg) = msg"

text \<open>\<open>str(tags.get(key))\<close>: the string \<open>'None'\<close> when the key is absent.\<close>

definition str_of_tag :: "string option \<Rightarrow> string" where
  "str_of_tag t = (case t of None \<Rightarrow> ''None'' | Some s \<Rightarrow> s)"

text \<open>
  \<^verbatim>\<open>
  if not force_reprocess:
      cursor.execute("SELECT filepath, file_mtime, file_hash FROM photos WHERE status = 'processed'")
      processed_files = {row[0]: (row[1], row[2]) for row in cursor.fetchall()}
  else:
      processed_files = {}
  \<close>
\<close>

definition processed_files_of :: "bool \<Rightarrow> photos_table \<Rightarrow> (string \<rightharpoonup> real option \<times> string option)" where
  "processed_files_of force_reprocess db =
     (if \<not> force_reprocess
      then (\<lambda>p. case db p of
                  None \<Rightarrow> None
                | Some r \<Rightarrow> if status r = ''processed'' then Some (file_mtime r, file_hash r) else None)
      else Map.empty)"

text \<open>
  The skip test:
  \<^verbatim>\<open>
  if not force_reprocess and filepath in processed_files:
      stored_mtime, stored_hash = processed_files[filepath]
      current_mtime = get_file_mtime(filepath)
      if current_mtime and stored_mtime and current_mtime == stored_mtime:
          ... continue
  \<close>
\<close>

definition unchanged ::
  "bool \<Rightarrow> (string \<rightharpoonup> real option \<times> string option) \<Rightarrow> file_env \<Rightarrow> string \<Rightarrow> bool" where
  "unchanged force_reprocess processed_files env path \<longleftrightarrow>
     \<not> force_reprocess \<and>
     (case processed_files path of
        None \<Rightarrow> False
      | Some (stored_mtime, stored_hash) \<Rightarrow>
          let current_mtime = mtime env
          in truthy_float current_mtime \<and> truthy_float stored_mtime \<and> current_mtime = stored_mtime)"

text \<open>
  The GPS block: the two conversions, the counter and the lookup, inside a \<open>try\<close> whose
  handler is \<open>pass\<close>.  When the second conversion raises, \<open>gps_lat\<close> keeps the value
  already assigned.  The result is \<open>(gps_lat, gps_lon, location, increment of gps_count)\<close>.
\<close>

definition gps_block ::
  "bool \<Rightarrow> geoplace list option \<Rightarrow> (real \<Rightarrow> real) \<Rightarrow> (nat \<Rightarrow> bool) \<Rightarrow> exif_tags
     \<Rightarrow> real option \<times> real option \<times> string option \<times> nat" where
  "gps_block skip_location_lookup locations dcos sd tags =
     (case (gps_latitude tags, gps_longitude tags) of
        (Some lat_values, Some lon_values) \<Rightarrow>
          (case dms_to_decimal lat_values (str_of_tag (gps_latitude_ref tags)) of
             Inl e \<Rightarrow> (None, None, None, 0)
           | Inr la \<Rightarrow>
              (case dms_to_decimal lon_values (str_of_tag (gps_longitude_ref tags)) of
                 Inl e \<Rightarrow> (Some la, None, None, 0)
               | Inr lo \<Rightarrow>
                  (Some la, Some lo,
                   (if \<not> skip_location_lookup then find_nearest_location dcos sd la lo locations 50 else None),
                   1)))
      | _ \<Rightarrow> (None, None, None, 0))"

text \<open>The row written after a successful extraction.\<close>

definition processed_record ::
  "bool \<Rightarrow> geoplace list option \<Rightarrow> (real \<Rightarrow> real) \<Rightarrow> file_env \<Rightarrow> string \<Rightarrow> exif_tags \<Rightarrow> photo" where
  "processed_record skip_location_lookup locations dcos env path tags =
     (case gps_block skip_location_lookup locations dcos (lookup_polls env) tags of
        (la, lo, loc, g) \<Rightarrow>
          \<lparr>filename = basename path, filepath = path,
           datetime = (case exif_datetime_original tags of Some s \<Rightarrow> Some s | None \<Rightarrow> image_datetime tags),
           camera_model = image_model tags, lens_model = exif_lens_model tags,
           iso = exif_iso_speed_ratings tags, fnumber = exif_fnumber tags,
           exposure_time = exif_exposure_time tags, focal_length = exif_focal_length tags,
           orientation = image_orientation tags,
           gps_lat = la, gps_lon = lo, location = loc,
           status = ''processed'', file_hash = md5 env, file_mtime = mtime env,
           processed_at = Some (now env), error_message = None\<rparr>)"

text \<open>The row written by either exception handler.\<close>

definition failed_record :: "file_env \<Rightarrow> string \<Rightarrow> string \<Rightarrow> photo" where
  "failed_record env path error_msg =
     \<lparr>filename = basename path, filepath = path,
      datetime = None, camera_model = None, lens_model = None,
      iso = None, fnumber = None, exposure_time = None, focal_length = None,
      orientation = None, gps_lat = None, gps_lon = None, location = None,
      status = ''failed'', file_hash = md5 env, file_mtime = mtime env,
      processed_at = Some (now env), error_message = Some error_msg\<rparr>"

subsection \<open>One file\<close>

text \<open>
  The outer handler, \<open>except Exception as e\<close>: it tries to write a \<open>failed\<close> row with the
  message \<open>Processing error: str(e)\<close> and counts the error; when that write raises too,
  \<open>except Exception as db_error: pass\<close> drops the exception, and neither a row nor a
  count is left.
\<close>

definition outer_handler :: "file_env \<Rightarrow> string \<Rightarrow> exn \<Rightarrow> run_state \<Rightarrow> run_state" where
  "outer_handler env path e st =
     (case write_failed_outer env of
        None \<Rightarrow>
          st\<lparr>photos := (photos st)(path \<mapsto> failed_record env path (''Processing error: '' @ exn_str e)),
             error_count := error_count st + 1\<rparr>
      | Some db_error \<Rightarrow> st)"

text \<open>
  The body of the loop of \<open>process_images\<close> for one file, after the shutdown test:
  \<^item> a file that no longer exists is counted as an error and nothing is written;
  \<^item> an unchanged file is counted as skipped;
  \<^item> otherwise the file is opened and read.  Success writes a \<open>processed\<close> row;
    \<open>exifread.ExifReadError\<close> is caught by the inner handler, which writes a \<open>failed\<close>
    row; any other exception goes to the outer handler, and so does an exception of
    the store raised by the write of the success path (after \<open>gps_count\<close> has been
    incremented, before \<open>image_count\<close> is) or by the write of the inner handler.
\<close>

definition process_file ::
  "bool \<Rightarrow> bool \<Rightarrow> geoplace list option \<Rightarrow> (real \<Rightarrow> real) \<Rightarrow> (string \<rightharpoonup> real option \<times> string option)
     \<Rightarrow> file_env \<Rightarrow> string \<Rightarrow> run_state \<Rightarrow> run_state" where
  "process_file force_reprocess skip_location_lookup locations dcos processed_files env path st =
     (if \<not> path_exists env then st\<lparr>error_count := error_count st + 1\<rparr>
      else if unchanged force_reprocess processed_files env path
      then st\<lparr>skipped_count := skipped_count st + 1\<rparr>
      else
        let st1 = (if \<not> force_reprocess \<and> processed_files path \<noteq> None
                   then st\<lparr>updated_count := updated_count st + 1\<rparr> else st);
            st2 = st1\<lparr>opened := opened st1 @ [path]\<rparr>
        in (case extraction env of
              Inr tags \<Rightarrow>
                let st3 = st2\<lparr>gps_count := gps_count st2
                       + snd (snd (snd (gps_block skip_location_lookup locations dcos (lookup_polls env) tags)))\<rparr>
                in (case write_processed env of
                      None \<Rightarrow>
                        st3\<lparr>photos := (photos st3)(path \<mapsto>
                                 processed_record skip_location_lookup locations dcos env path tags),
                            image_count := image_count st3 + 1,
                            new_count := (if processed_files path = None then new_count st3 + 1
                                          else new_count st3)\<rparr>
                    | Some db_error \<Rightarrow> outer_handler env path (OtherException db_error) st3)
            | Inl (ExifReadError msg) \<Rightarrow>
                (case write_failed_inner env of
                   None \<Rightarrow>
                     st2\<lparr>photos := (photos st2)(path \<mapsto> failed_record env path (''EXIF read error: '' @ msg)),
                         error_count := error_count st2 + 1\<rparr>
                 | Some db_error \<Rightarrow> outer_handler env path (OtherException db_error) st2)
            | Inl e \<Rightarrow> outer_handler env path e st2))"

subsection \<open>The run\<close>

text \<open>
  The loop over \<open>all_image_files\<close>.  When the flag is set at the head of the loop the run
  commits and returns \<open>False\<close>; at the end of the list it returns \<open>True\<close>.
\<close>

fun process_loop ::
  "bool \<Rightarrow> bool \<Rightarrow> geoplace list option \<Rightarrow> (real \<Rightarrow> real) \<Rightarrow> (string \<rightharpoonup> real option \<times> string option)
     \<Rightarrow> (string \<Rightarrow> file_env) \<Rightarrow> string list \<Rightarrow> run_state \<Rightarrow> bool \<times> run_state" where
  "process_loop force_reprocess skip_location_lookup locations dcos processed_files world [] st = (True, st)"
| "process_loop force_reprocess skip_location_lookup locations dcos processed_files world (path # rest) st =
     (if shutdown_requested (world path) then (False, st)
      else process_loop force_reprocess skip_location_lookup locations dcos processed_files world rest
             (process_file force_reprocess skip_location_lookup locations dcos processed_files (world path) path st))"

text \<open>
  \<open>process_images\<close> from the point where the directory has been scanned:
  \<open>all_image_files\<close> is the list of files found, \<open>db\<close> the \<open>photos\<close> table and \<open>locations\<close>
  the gazetteer table of the store (\<open>None\<close> when there is none).  The result is the return
  value with the final store and counters.
\<close>

definition process_images ::
  "bool \<Rightarrow> bool \<Rightarrow> geoplace list option \<Rightarrow> (real \<Rightarrow> real) \<Rightarrow> (string \<Rightarrow> file_env) \<Rightarrow> string list \<Rightarrow> photos_table
     \<Rightarrow> bool \<times> run_state" where
  "process_images force_reprocess skip_location_lookup locations dcos world all_image_files db =
     process_loop force_reprocess skip_location_lookup locations dcos (processed_files_of force_reprocess db)
       world all_image_files
       \<lparr>photos = db, image_count = 0, skipped_count = 0, error_count = 0, gps_count = 0,
        new_count = 0, updated_count = 0, opened = []\<rparr>"

subsection \<open>Notions used to state the pipeline's properties\<close>

text \<open>The EXIF-derived columns of a row are all null.\<close>

definition exif_fields_null :: "photo \<Rightarrow> bool" where
  "exif_fields_null r \<longleftrightarrow>
     datetime r = None \<and> camera_model r = None \<and> lens_model r = None \<and> iso r = None \<and>
     fnumber r = None \<and> exposure_time r = None \<and> focal_length r = None \<and> orientation r = None \<and>
     gps_lat r = None \<and> gps_lon r = None \<and> location r = None"

text \<open>The invariant of a row of the store.\<close>

definition record_invariant :: "photo \<Rightarrow> bool" where
  "record_invariant r \<longleftrightarrow>
     (status r = ''processed'' \<longrightarrow> error_message r = None) \<and>
     (status r = ''failed'' \<longrightarrow> exif_fields_null r)"

text \<open>The file is one that a run reads: it exists and is not skipped as unchanged.\<close>

definition to_extract ::
  "bool \<Rightarrow> (string \<rightharpoonup> real option \<times> string option) \<Rightarrow> (string \<Rightarrow> file_env) \<Rightarrow> string \<Rightarrow> bool" where
  "to_extract force_reprocess processed_files world path \<longleftrightarrow>
     path_exists (world path) \<and> \<not> unchanged force_reprocess processed_files (world path) path"

text \<open>
  The row, if any, that the outer handler leaves for the file, and the row, if any, that
  reading the file leaves in the store.
\<close>

definition outer_row :: "file_env \<Rightarrow> string \<Rightarrow> exn \<Rightarrow> photo option" where
  "outer_row env path e =
     (case write_failed_outer env of
        None \<Rightarrow> Some (failed_record env path (''Processing error: '' @ exn_str e))
      | Some db_error \<Rightarrow> None)"

definition stored_row ::
  "bool \<Rightarrow> geoplace list option \<Rightarrow> (real \<Rightarrow> real) \<Rightarrow> file_env \<Rightarrow> string \<Rightarrow> photo option" where
  "stored_row skip_location_lookup locations dcos env path =
     (case extraction env of
        Inr tags \<Rightarrow>
          (case write_processed env of
             None \<Rightarrow> Some (processed_record skip_location_lookup locations dcos env path tags)
           | Some db_error \<Rightarrow> outer_row env path (OtherException db_error))
      | Inl (ExifReadError msg) \<Rightarrow>
          (case write_failed_inner env of
             None \<Rightarrow> Some (failed_record env path (''EXIF read error: '' @ msg))
           | Some db_error \<Rightarrow> outer_row env path (OtherException db_error))
      | Inl e \<Rightarrow> outer_row env path e)"


text \<open>
  The row carries the path of the file and the hash, the modification time and the
  processing time that the run obtained for it.
\<close>

definition recorded_from :: "(string \<Rightarrow> file_env) \<Rightarrow> string \<Rightarrow> photo \<Rightarrow> bool" where
  "recorded_from world p r \<longleftrightarrow>
     filepath r = p \<and> file_hash r = md5 (world p) \<and> file_mtime r = mtime (world p)
     \<and> processed_at r = Some (now (world p))"

subsection \<open>A concrete directory\<close>

text \<open>
  Six kinds of file.  \<open>/photos/a.jpg\<close> has a corrupt tag block; \<open>/photos/c.jpg\<close> reads
  well but has the modification time 0; \<open>/photos/d.jpg\<close> has vanished since the scan;
  \<open>/photos/e.jpg\<close> reads well but its GPS latitude has a zero denominator;
  \<open>/photos/f.jpg\<close> has a corrupt tag block and a path that the store cannot encode, so
  that every write for it raises; every other file reads well.  No shutdown is requested.
\<close>

definition plain_tags :: exif_tags where
  "plain_tags =
     \<lparr>exif_datetime_original = Some ''2008:09:12 14:30:00'', image_datetime = None,
      image_model = Some ''PowerShot'', exif_lens_model = None, exif_iso_speed_ratings = Some ''100'',
      exif_fnumber = None, exif_exposure_time = None, exif_focal_length = None,
      image_orientation = None, gps_latitude = None, gps_latitude_ref = None,
      gps_longitude = None, gps_longitude_ref = None\<rparr>"

definition bad_gps_tags :: exif_tags where
  "bad_gps_tags =
     plain_tags\<lparr>gps_latitude := Some [\<lparr>num = 39, den = 0\<rparr>, \<lparr>num = 6, den = 1\<rparr>, \<lparr>num = 11, den = 1\<rparr>],
                gps_latitude_ref := Some ''N'',
                gps_longitude := Some [\<lparr>num = 84, den = 1\<rparr>, \<lparr>num = 30, den = 1\<rparr>, \<lparr>num = 43, den = 1\<rparr>],
                gps_longitude_ref := Some ''W''\<rparr>"

definition corrupt_file :: file_env where
  "corrupt_file =
     \<lparr>shutdown_requested = False, path_exists = True, mtime = Some 1221229800,
      md5 = Some ''0cc175b9c0f1b6a831c399e269772661'',
      extraction = Inl (ExifReadError ''truncated IFD''),
      now = ''2024-05-01T10:00:00'', lookup_polls = no_shutdown,
      write_processed = None, write_failed_inner = None, write_failed_outer = None\<rparr>"

definition sound_file :: file_env where
  "sound_file =
     \<lparr>shutdown_requested = False, path_exists = True, mtime = Some 1221229801,
      md5 = Some ''92eb5ffee6ae2fec3ad71c777531578f'',
      extraction = Inr plain_tags,
      now = ''2024-05-01T10:00:01'', lookup_polls = no_shutdown,
      write_processed = None, write_failed_inner = None, write_failed_outer = None\<rparr>"

definition epoch_file :: file_env where
  "epoch_file =
     \<lparr>shutdown_requested = False, path_exists = True, mtime = Some 0,
      md5 = Some ''4a8a08f09d37b73795649038408b5f33'',
      extraction = Inr plain_tags,
      now = ''2024-05-01T10:00:02'', lookup_polls = no_shutdown,
      write_processed = None, write_failed_inner = None, write_failed_outer = None\<rparr>"

definition vanished_file :: file_env where
  "vanished_file =
     \<lparr>shutdown_requested = False, path_exists = False, mtime = None, md5 = None,
      extraction = Inl (OtherException ''No such file or directory''),
      now = ''2024-05-01T10:00:03'', lookup_polls = no_shutdown,
      write_processed = None, write_failed_inner = None, write_failed_outer = None\<rparr>"

definition bad_gps_file :: file_env where
  "bad_gps_file =
     \<lparr>shutdown_requested = False, path_exists = True, mtime = Some 1221229804,
      md5 = Some ''8fa14cdd754f91cc6554c9e71929cce7'',
      extraction = Inr bad_gps_tags,
      now = ''2024-05-01T10:00:04'', lookup_polls = no_shutdown,
      write_processed = None, write_failed_inner = None, write_failed_outer = None\<rparr>"

definition unwritable_file :: file_env where
  "unwritable_file =
     \<lparr>shutdown_requested = False, path_exists = True, mtime = Some 1221229805,
      md5 = Some ''e1671797c52e15f763380b45e841ec32'',
      extraction = Inl (ExifReadError ''truncated IFD''),
      now = ''2024-05-01T10:00:05'', lookup_polls = no_shutdown,
      write_processed = Some ''surrogates not allowed'',
      write_failed_inner = Some ''surrogates not allowed'',
      write_failed_outer = Some ''surrogates not allowed''\<rparr>"

definition sample_world :: "string \<Rightarrow> file_env" where
  "sample_world p =
     (if p = ''/photos/a.jpg'' then corrupt_file
      else if p = ''/photos/c.jpg'' then epoch_file
      else if p = ''/photos/d.jpg'' then vanished_file
      else if p = ''/photos/e.jpg'' then bad_gps_file
      else if p = ''/photos/f.jpg'' then unwritable_file
      else sound_file)"



section \<open>Rounding to double precision\<close>

lemma round_half_even_err: "\<bar>of_int (round_half_even x) - x\<bar> \<le> 1 / 2"
  unfolding round_half_even_def Let_def by (auto; linarith)

lemma round_half_even_of_int [simp]: "round_half_even (of_int n) = n"
  unfolding round_half_even_def Let_def by simp

lemma bitlen_pos_bounds:
  assumes "0 < n"
  shows "(2::real) powi (bitlen n - 1) \<le> of_int n" "of_int n < (2::real) powi (bitlen n)"
proof -
  from bitlen_bounds[OF assms] have a: "2 ^ nat (bitlen n - 1) \<le> n" and b: "n < 2 ^ nat (bitlen n)" by auto
  have p: "0 < bitlen n" using assms bitlen_eq_zero_iff[of n] bitlen_nonneg[of n] by linarith
  have "(2::real) powi (bitlen n - 1) = 2 ^ nat (bitlen n - 1)" using p by (simp add: power_int_def)
  also have "\<dots> = of_int (2 ^ nat (bitlen n - 1))" by simp
  also have "\<dots> \<le> of_int n" using a by (simp only: of_int_le_iff)
  finally show "(2::real) powi (bitlen n - 1) \<le> of_int n" .
  have "of_int n < (of_int (2 ^ nat (bitlen n)) :: real)" using b by (simp only: of_int_less_iff)
  also have "\<dots> = 2 powi (bitlen n)" using p by (simp add: power_int_def)
  finally show "of_int n < (2::real) powi (bitlen n)" .
qed

lemma binade_bounds:
  assumes "x \<noteq> 0"
  shows "2 powi (binade x) \<le> \<bar>x\<bar>" "\<bar>x\<bar> < 2 powi (binade x + 1)"
proof -
  show "2 powi (binade x) \<le> \<bar>x\<bar>"
  proof (cases "1 \<le> \<bar>x\<bar>")
    case True
    then have n: "0 < \<lfloor>\<bar>x\<bar>\<rfloor>" by linarith
    have "2 powi (binade x) \<le> (of_int \<lfloor>\<bar>x\<bar>\<rfloor> :: real)" using bitlen_pos_bounds(1)[OF n] True by (simp add: binade_def)
    also have "\<dots> \<le> \<bar>x\<bar>" by linarith
    finally show ?thesis .
  next
    case False
    define y where "y = 1 / \<bar>x\<bar>"
    have y1: "1 < y" using False assms by (simp add: y_def)
    define n where "n = \<lceil>y\<rceil> - 1"
    have n: "0 < n" using y1 unfolding n_def by linarith
    have yn: "y \<le> of_int n + 1" unfolding n_def by simp
    have "of_int n + 1 = (of_int (n + 1) :: real)" by simp
    also have "\<dots> \<le> 2 powi (bitlen n)"
    proof -
      from bitlen_bounds[OF n] have "n + 1 \<le> 2 ^ nat (bitlen n)" by auto
      then have "(of_int (n + 1) :: real) \<le> of_int (2 ^ nat (bitlen n))" by (simp only: of_int_le_iff)
      moreover have "0 < bitlen n" using n bitlen_eq_zero_iff[of n] bitlen_nonneg[of n] by linarith
      ultimately show ?thesis by (simp add: power_int_def)
    qed
    finally have "y \<le> 2 powi (bitlen n)" using yn by linarith
    then have "1 / (2 powi (bitlen n)) \<le> 1 / y" using y1 by (intro divide_left_mono) (auto intro: mult_pos_pos)
    moreover have "1 / y = \<bar>x\<bar>" by (simp add: y_def)
    moreover have "binade x = - bitlen n" using False by (simp add: binade_def n_def y_def)
    ultimately show ?thesis by (simp add: power_int_minus field_simps)
  qed
  show "\<bar>x\<bar> < 2 powi (binade x + 1)"
  proof (cases "1 \<le> \<bar>x\<bar>")
    case True
    then have n: "0 < \<lfloor>\<bar>x\<bar>\<rfloor>" by linarith
    have "\<bar>x\<bar> < of_int (\<lfloor>\<bar>x\<bar>\<rfloor> + 1)" by linarith
    also have "\<dots> \<le> 2 powi (bitlen \<lfloor>\<bar>x\<bar>\<rfloor>)"
    proof -
      from bitlen_bounds[OF n] have "\<lfloor>\<bar>x\<bar>\<rfloor> + 1 \<le> 2 ^ nat (bitlen \<lfloor>\<bar>x\<bar>\<rfloor>)" by auto
      then have "(of_int (\<lfloor>\<bar>x\<bar>\<rfloor> + 1) :: real) \<le> of_int (2 ^ nat (bitlen \<lfloor>\<bar>x\<bar>\<rfloor>))" by (simp only: of_int_le_iff)
      moreover have "0 < bitlen \<lfloor>\<bar>x\<bar>\<rfloor>" using n bitlen_eq_zero_iff[of "\<lfloor>\<bar>x\<bar>\<rfloor>"] bitlen_nonneg[of "\<lfloor>\<bar>x\<bar>\<rfloor>"] by linarith
      ultimately show ?thesis by (simp add: power_int_def)
    qed
    finally show ?thesis using True by (simp add: binade_def)
  next
    case False
    define y where "y = 1 / \<bar>x\<bar>"
    have y1: "1 < y" using False assms by (simp add: y_def)
    define n where "n = \<lceil>y\<rceil> - 1"
    have n: "0 < n" using y1 unfolding n_def by linarith
    have ny: "of_int n < y" unfolding n_def by simp linarith
    have "2 powi (bitlen n - 1) \<le> (of_int n :: real)" using bitlen_pos_bounds(1)[OF n] .
    then have "2 powi (bitlen n - 1) < y" using ny by linarith
    moreover have "0 < y" using y1 by simp
    ultimately have "1 / y < 1 / (2 powi (bitlen n - 1))" by (intro divide_strict_left_mono) (auto intro: mult_pos_pos)
    moreover have "1 / y = \<bar>x\<bar>" by (simp add: y_def)
    moreover have "1 / ((2::real) powi (bitlen n - 1)) = 2 powi (- bitlen n + 1)"
      using power_int_minus[of "2::real" "bitlen n - 1"] by (simp add: field_simps)
    moreover have "binade x = - bitlen n" using False by (simp add: binade_def n_def y_def)
    ultimately show ?thesis by simp
  qed
qed

lemma fl_err: "\<bar>fl x - x\<bar> \<le> \<bar>x\<bar> / 2 ^ 53"
proof (cases "x = 0")
  case True then show ?thesis by (simp add: fl_def)
next
  case False
  define e where "e = binade x"
  define y where "y = x * 2 powi (52 - e)"
  have xy: "x = y * 2 powi (e - 52)" by (simp add: y_def flip: power_int_add)
  have "fl x = of_int (round_half_even y) * 2 powi (e - 52)"
    using False by (simp add: fl_def Let_def e_def y_def)
  then have "fl x - x = (of_int (round_half_even y) - y) * 2 powi (e - 52)"
    by (subst (2) xy) (simp add: algebra_simps)
  then have "\<bar>fl x - x\<bar> = \<bar>of_int (round_half_even y) - y\<bar> * 2 powi (e - 52)"
    by (simp add: abs_mult)
  also have "\<dots> \<le> (1 / 2) * 2 powi (e - 52)"
    by (intro mult_right_mono round_half_even_err) simp
  also have "\<dots> = 2 powi e / 2 ^ 53" by (simp add: power_int_diff)
  also have "\<dots> \<le> \<bar>x\<bar> / 2 ^ 53" using binade_bounds(1)[OF False] by (simp add: e_def divide_right_mono)
  finally show ?thesis .
qed


lemma fl_of_int_exact:
  assumes "\<bar>n\<bar> < 2 ^ 53"
  shows "fl (of_int n) = of_int n"
proof (cases "n = 0")
  case True then show ?thesis by (simp add: fl_def)
next
  case False
  define e where "e = binade (of_int n)"
  have nz: "(of_int n :: real) \<noteq> 0" using False by simp
  have "2 powi e \<le> \<bar>of_int n :: real\<bar>" using binade_bounds(1)[OF nz] by (simp add: e_def)
  also have "\<dots> < 2 ^ 53" using assms by (metis of_int_abs of_int_less_numeral_power_cancel_iff)
  finally have "(2::real) powi e < 2 powi 53" by simp
  then have "e < 53" by (rule power_int_le_imp_less_exp[rotated]) simp_all
  then have e: "e \<le> 52" by simp
  define k where "k = nat (52 - e)"
  have k: "52 - e = int k" using e by (simp add: k_def)
  have "of_int n * (2::real) powi (52 - e) = of_int (n * 2 ^ k)" by (simp add: k power_int_def)
  then have "round_half_even (of_int n * 2 powi (52 - e)) = n * 2 ^ k"
    by (simp only: round_half_even_of_int)
  then have "fl (of_int n) = of_int (n * 2 ^ k) * 2 powi (e - 52)"
    using nz by (simp add: fl_def Let_def e_def)
  also have "\<dots> = of_int n * (2 powi (int k) * 2 powi (e - 52))" by (simp add: power_int_def)
  also have "2 powi (int k) * (2::real) powi (e - 52) = 1" by (simp add: k[symmetric] flip: power_int_add)
  finally show ?thesis by simp
qed

lemma fl_nonneg_bounds:
  assumes "0 \<le> x"
  shows "x * (1 - 1 / 2 ^ 53) \<le> fl x" "fl x \<le> x * (1 + 1 / 2 ^ 53)"
proof -
  have "\<bar>fl x - x\<bar> \<le> x / 2 ^ 53" using fl_err[of x] assms by simp
  then have "- (x / 2 ^ 53) \<le> fl x - x" "fl x - x \<le> x / 2 ^ 53" by linarith+
  then show "x * (1 - 1 / 2 ^ 53) \<le> fl x" "fl x \<le> x * (1 + 1 / 2 ^ 53)"
    by (simp_all add: algebra_simps)
qed

lemma near_refl: "near 0 x x"
  by (simp add: near_def)

lemma near_fl:
  assumes "0 \<le> x" "near k y x"
  shows "near (Suc k) (fl y) x"
proof -
  have lo: "x * (1 - 1 / 2 ^ 53) ^ k \<le> y" and hi: "y \<le> x * (1 + 1 / 2 ^ 53) ^ k"
    using assms(2) by (simp_all add: near_def)
  have "0 \<le> x * (1 - 1 / 2 ^ 53) ^ k" using assms(1) by simp
  then have y0: "0 \<le> y" using lo by linarith
  have "x * (1 - 1 / 2 ^ 53) ^ k * (1 - 1 / 2 ^ 53) \<le> y * (1 - 1 / 2 ^ 53)"
    using lo by (intro mult_right_mono) simp_all
  also have "\<dots> \<le> fl y" using fl_nonneg_bounds(1)[OF y0] .
  finally have a: "x * (1 - 1 / 2 ^ 53) ^ Suc k \<le> fl y" by (simp add: mult.assoc mult.commute)
  have "fl y \<le> y * (1 + 1 / 2 ^ 53)" using fl_nonneg_bounds(2)[OF y0] .
  also have "\<dots> \<le> x * (1 + 1 / 2 ^ 53) ^ k * (1 + 1 / 2 ^ 53)"
    using hi by (intro mult_right_mono) simp_all
  finally have b: "fl y \<le> x * (1 + 1 / 2 ^ 53) ^ Suc k" by (simp add: mult.assoc mult.commute)
  show ?thesis using a b by (simp only: near_def)
qed

lemma near_mono:
  assumes "0 \<le> x" "near j y x" "j \<le> k"
  shows "near k y x"
proof -
  have "(1 - 1 / 2 ^ 53 :: real) ^ k \<le> (1 - 1 / 2 ^ 53) ^ j"
    using assms(3) by (intro power_decreasing) simp_all
  then have "x * (1 - 1 / 2 ^ 53) ^ k \<le> x * (1 - 1 / 2 ^ 53) ^ j"
    using assms(1) by (rule mult_left_mono)
  moreover have "(1 + 1 / 2 ^ 53 :: real) ^ j \<le> (1 + 1 / 2 ^ 53) ^ k"
    using assms(3) by (intro power_increasing) simp_all
  then have "x * (1 + 1 / 2 ^ 53) ^ j \<le> x * (1 + 1 / 2 ^ 53) ^ k"
    using assms(1) by (rule mult_left_mono)
  ultimately show ?thesis using assms(2) unfolding near_def by linarith
qed

lemma near_add:
  assumes "near k y1 x1" "near k y2 x2"
  shows "near k (y1 + y2) (x1 + x2)"
  using assms unfolding near_def by (simp add: distrib_right) 

lemma near_div:
  assumes "near k y x" "0 < c"
  shows "near k (y / c) (x / c)"
  using assms unfolding near_def by (simp add: divide_right_mono field_simps)

lemma near_4_bound:
  assumes "0 \<le> x" "near 4 y x"
  shows "\<bar>y - x\<bar> \<le> x / 2 ^ 50"
proof -
  have l: "1 - 1 / 2 ^ 50 \<le> (1 - 1 / 2 ^ 53 :: real) ^ 4" by (simp add: power4_eq_xxxx)
  have h: "(1 + 1 / 2 ^ 53 :: real) ^ 4 \<le> 1 + 1 / 2 ^ 50" by (simp add: power4_eq_xxxx)
  have "x * (1 - 1 / 2 ^ 50) \<le> x * (1 - 1 / 2 ^ 53) ^ 4" using l assms(1) by (rule mult_left_mono)
  moreover have "x * (1 + 1 / 2 ^ 53) ^ 4 \<le> x * (1 + 1 / 2 ^ 50)" using h assms(1) by (rule mult_left_mono)
  ultimately have "x * (1 - 1 / 2 ^ 50) \<le> y" "y \<le> x * (1 + 1 / 2 ^ 50)"
    using assms(2) unfolding near_def by linarith+
  then have "- (x / 2 ^ 50) \<le> y - x" "y - x \<le> x / 2 ^ 50" by (simp_all add: algebra_simps)
  then show ?thesis by linarith
qed

lemma component_near:
  assumes "0 \<le> num r" "num r < 2 ^ 53" "0 < den r" "den r < 2 ^ 53" "i < length dms" "dms ! i = r"
  shows "\<exists>c. dms_component dms i = Inr c \<and> near 1 c (ratio_value r)"
proof -
  have n: "float_of_int (num r) = of_int (num r)"
    using assms(1,2) by (simp add: float_of_int_def fl_of_int_exact)
  have d: "float_of_int (den r) = of_int (den r)"
    using assms(3,4) by (simp add: float_of_int_def fl_of_int_exact)
  have nz: "(of_int (den r) :: real) \<noteq> 0" using assms(3) by simp
  have c: "dms_component dms i = Inr (fl (ratio_value r))"
    using assms(5,6) nz by (simp add: dms_component_def n d float_div_def ratio_value_def)
  have "0 \<le> ratio_value r" using assms(1,3) by (simp add: ratio_value_def)
  then have "near 1 (fl (ratio_value r)) (ratio_value r)"
    using near_fl[OF _ near_refl] by simp
  with c show ?thesis by blast
qed

lemma ratio_value_nonneg: "0 \<le> num r \<Longrightarrow> 0 < den r \<Longrightarrow> 0 \<le> ratio_value r"
  by (simp add: ratio_value_def)

section \<open>C2: accuracy of the GPS conversion\<close>

text \<open>
  C2.  For a degree-minute-second triple of non-negative rationals whose numerators and
  denominators a double holds exactly (below \<open>2 ^ 53\<close>; EXIF's are 32-bit) and whose
  denominators are not zero, \<open>dms_to_decimal\<close> returns a value \<open>v\<close>, negated exactly when the
  reference is \<open>S\<close> or \<open>W\<close>, and \<open>v\<close> is the double-precision evaluation of
  \<open>degrees + minutes / 60 + seconds / 3600\<close>: it lies within a relative error of \<open>2 ^ - 50\<close>
  of the exact rational value.  It is not in general equal to it.
\<close>

theorem dms_to_decimal_rounded:
  assumes "\<forall>r \<in> {d, m, s}. 0 \<le> num r \<and> num r < 2 ^ 53 \<and> 0 < den r \<and> den r < 2 ^ 53"
  shows "\<exists>v. dms_to_decimal [d, m, s] ref = Inr (if ref = ''S'' \<or> ref = ''W'' then - v else v)
           \<and> \<bar>v - dms_exact d m s\<bar> \<le> dms_exact d m s / 2 ^ 50"
proof -
  from assms obtain cd where cd: "dms_component [d, m, s] 0 = Inr cd" "near 1 cd (ratio_value d)"
    using component_near[of d 0 "[d, m, s]"] by auto
  from assms obtain cm where cm: "dms_component [d, m, s] 1 = Inr cm" "near 1 cm (ratio_value m)"
    using component_near[of m 1 "[d, m, s]"] by auto
  from assms obtain cs where cs: "dms_component [d, m, s] 2 = Inr cs" "near 1 cs (ratio_value s)"
    using component_near[of s 2 "[d, m, s]"] by auto
  have d0: "0 \<le> ratio_value d" and m0: "0 \<le> ratio_value m" and s0: "0 \<le> ratio_value s"
    using assms by (simp_all add: ratio_value_nonneg)
  have m60: "near 2 (fl (cm / 60)) (ratio_value m / 60)"
    using near_fl[OF _ near_div[OF cm(2), of 60]] m0 by (simp add: numeral_2_eq_2)
  have s3600: "near 2 (fl (cs / 3600)) (ratio_value s / 3600)"
    using near_fl[OF _ near_div[OF cs(2), of 3600]] s0 by (simp add: numeral_2_eq_2)
  have "near 2 (cd + fl (cm / 60)) (ratio_value d + ratio_value m / 60)"
    using near_add[OF near_mono[OF d0 cd(2), of 2] m60] by simp
  then have s1: "near 3 (float_add cd (fl (cm / 60))) (ratio_value d + ratio_value m / 60)"
    using near_fl[of "ratio_value d + ratio_value m / 60" 2] d0 m0
    by (simp add: float_add_def numeral_3_eq_3 numeral_2_eq_2)
  have "near 3 (float_add cd (fl (cm / 60)) + fl (cs / 3600)) (dms_exact d m s)"
    unfolding dms_exact_def
    using near_add[OF s1 near_mono[OF _ s3600, of 3]] s0 by simp
  moreover have e0: "0 \<le> dms_exact d m s" using d0 m0 s0 by (simp add: dms_exact_def)
  ultimately have "near 4 (float_add (float_add cd (fl (cm / 60))) (fl (cs / 3600))) (dms_exact d m s)"
    using near_fl[of "dms_exact d m s" 3] by (simp add: float_add_def eval_nat_numeral)
  then have "\<bar>float_add (float_add cd (fl (cm / 60))) (fl (cs / 3600)) - dms_exact d m s\<bar>
               \<le> dms_exact d m s / 2 ^ 50"
    using near_4_bound[OF e0] by blast
  moreover have "dms_to_decimal [d, m, s] ref =
      Inr (if ref = ''S'' \<or> ref = ''W''
           then - float_add (float_add cd (fl (cm / 60))) (fl (cs / 3600))
           else float_add (float_add cd (fl (cm / 60))) (fl (cs / 3600)))"
    unfolding dms_to_decimal_def cd(1) cm(1) cs(1) by (simp add: Let_def)
  ultimately show ?thesis by blast
qed


text \<open>
  C2, as stated, fails: for 39 degrees, 6 minutes and 1116/100 seconds north the exact value
  is \<open>391031 / 10000\<close>, which no double equals; the function returns
  \<open>5503272080907227 / 2 ^ 47\<close>.
\<close>

theorem dms_to_decimal_exact_counterexample:
  "dms_to_decimal [\<lparr>num = 39, den = 1\<rparr>, \<lparr>num = 6, den = 1\<rparr>, \<lparr>num = 1116, den = 100\<rparr>] ''N''
     \<noteq> Inr (dms_exact \<lparr>num = 39, den = 1\<rparr> \<lparr>num = 6, den = 1\<rparr> \<lparr>num = 1116, den = 100\<rparr>)"
  by code_simp

theorem dms_to_decimal_rounded_witness:
  "\<exists>v. dms_to_decimal [\<lparr>num = 84, den = 1\<rparr>, \<lparr>num = 30, den = 1\<rparr>, \<lparr>num = 4320, den = 100\<rparr>] ''W'' = Inr (- v)
     \<and> \<bar>v - 84512 / 1000\<bar> \<le> (84512 / 1000) / 2 ^ 50"
  using dms_to_decimal_rounded[of "\<lparr>num = 84, den = 1\<rparr>" "\<lparr>num = 30, den = 1\<rparr>" "\<lparr>num = 4320, den = 100\<rparr>" "''W''"]
  by (simp add: dms_exact_def ratio_value_def)

text \<open>A zero denominator makes the conversion raise.\<close>

lemma dms_to_decimal_zero_den:
  "dms_to_decimal [\<lparr>num = 39, den = 1\<rparr>, \<lparr>num = 6, den = 0\<rparr>, \<lparr>num = 0, den = 1\<rparr>] ref = Inl ZeroDivisionError"
  by code_simp

section \<open>Properties of the location resolver\<close>

text \<open>
  In real arithmetic the argument of \<open>math.sqrt\<close> lies in \<open>[0, 1]\<close>, so neither
  \<open>math.sqrt\<close> nor \<open>math.asin\<close> raises.
\<close>

lemma haversine_a_range: "0 \<le> haversine_a lat1 lon1 lat2 lon2 \<and> haversine_a lat1 lon1 lat2 lon2 \<le> 1"
proof -
  define p where "p = radians lat1"
  define q where "q = radians lat2"
  define t where "t = (sin (radians (lon2 - lon1) / 2))\<^sup>2"
  define s where "s = (sin ((q - p) / 2))\<^sup>2"
  have dl: "radians (lat2 - lat1) = q - p" by (simp add: radians_def p_def q_def algebra_simps diff_divide_distrib)
  have a: "haversine_a lat1 lon1 lat2 lon2 = s + cos p * cos q * t"
    by (simp add: haversine_a_def Let_def dl s_def t_def p_def q_def)
  have t: "0 \<le> t" "t \<le> 1" by (simp_all add: t_def abs_square_le_1 abs_sin_le_one)
  have s: "0 \<le> s" "s \<le> 1" by (simp_all add: s_def abs_square_le_1 abs_sin_le_one)
  have "2 * ((q - p) / 2) = q - p" by simp
  then have "cos (q - p) = 1 - 2 * s" using cos_double_sin[of "(q - p) / 2"] by (simp only: s_def)
  then have s2: "s = (1 - cos (q - p)) / 2" by simp
  have "cos p * cos q = (cos (p - q) + cos (p + q)) / 2" by (rule cos_times_cos)
  also have "cos (p - q) = cos (q - p)" using cos_minus[of "q - p"] by simp
  finally have pq: "cos p * cos q = (cos (q - p) + cos (p + q)) / 2" .
  have full: "s + cos p * cos q = (1 + cos (p + q)) / 2" using s2 pq by (simp add: field_simps)
  have g: "- 1 \<le> x \<Longrightarrow> x \<le> 1 \<Longrightarrow> 0 \<le> (1 + x) / 2 \<and> (1 + x) / 2 \<le> 1" for x :: real
    by simp
  have "0 \<le> (1 + cos (p + q)) / 2" "(1 + cos (p + q)) / 2 \<le> 1"
    using g[OF cos_ge_minus_one[of "p + q"] cos_le_one[of "p + q"]] by blast+
  then have f: "0 \<le> s + cos p * cos q" "s + cos p * cos q \<le> 1"
    unfolding full by blast+
  show ?thesis
  proof (cases "0 \<le> cos p * cos q")
    case True
    have "0 \<le> cos p * cos q * t" using True t(1) by simp
    moreover have "cos p * cos q * t \<le> cos p * cos q * 1" using True t(2) by (intro mult_left_mono)
    ultimately show ?thesis using a s f by simp
  next
    case False
    then have neg: "cos p * cos q \<le> 0" by simp
    have "cos p * cos q * t \<le> 0" using neg t(1) by (simp add: mult_nonpos_nonneg)
    moreover have "cos p * cos q * 1 \<le> cos p * cos q * t" using neg t(2) by (intro mult_left_mono_neg)
    ultimately show ?thesis using a s f by simp
  qed
qed

lemma haversine_distance_total:
  "haversine_distance lat1 lon1 lat2 lon2 = Inr (haversine_km lat1 lon1 lat2 lon2)"
proof -
  have r: "0 \<le> haversine_a lat1 lon1 lat2 lon2" "haversine_a lat1 lon1 lat2 lon2 \<le> 1"
    using haversine_a_range by simp_all
  have "sqrt (haversine_a lat1 lon1 lat2 lon2) \<le> 1" using r(2) by simp
  then show ?thesis using r(1) by (simp add: haversine_distance_def haversine_km_def Let_def)
qed

lemma haversine_km_nonneg: "0 \<le> haversine_km lat1 lon1 lat2 lon2"
proof -
  have "0 \<le> sqrt (haversine_a lat1 lon1 lat2 lon2)" "sqrt (haversine_a lat1 lon1 lat2 lon2) \<le> 1"
    using haversine_a_range[of lat1 lon1 lat2 lon2] by simp_all
  then have "0 \<le> arcsin (sqrt (haversine_a lat1 lon1 lat2 lon2))"
    using arcsin_le_arcsin[of 0 "sqrt (haversine_a lat1 lon1 lat2 lon2)"] by simp
  then show ?thesis by (simp add: haversine_km_def)
qed

lemma haversine_km_same: "haversine_km lat lon lat lon = 0"
  by (simp add: haversine_km_def haversine_a_def radians_def)

lemma haversine_km_north:
  assumes "0 \<le> x" "x \<le> 180"
  shows "haversine_km 0 0 x 0 = 6371 * radians x"
proof -
  have r: "0 \<le> radians x / 2" "radians x / 2 \<le> pi / 2"
    using assms by (simp_all add: radians_def)
  have "haversine_a 0 0 x 0 = (sin (radians x / 2))\<^sup>2"
    by (simp add: haversine_a_def radians_def)
  moreover have "0 \<le> sin (radians x / 2)" using r by (intro sin_ge_zero) simp_all
  ultimately have "sqrt (haversine_a 0 0 x 0) = sin (radians x / 2)" by simp
  moreover have "arcsin (sin (radians x / 2)) = radians x / 2" using r by (intro arcsin_sin) simp_all
  ultimately show ?thesis by (simp add: haversine_km_def)
qed

lemma haversine_km_meridian:
  assumes "\<bar>x\<bar> \<le> 180"
  shows "haversine_km 0 0 x 0 = 6371 * radians \<bar>x\<bar>"
proof (cases "0 \<le> x")
  case True
  then show ?thesis using assms haversine_km_north[of x] by simp
next
  case False
  have "radians (- x) / 2 = - (radians x / 2)" by (simp add: radians_def)
  then have "(sin (radians (- x) / 2))\<^sup>2 = (sin (radians x / 2))\<^sup>2" by simp
  then have "haversine_a 0 0 x 0 = haversine_a 0 0 (- x) 0"
    by (simp add: haversine_a_def radians_def)
  then have "haversine_km 0 0 x 0 = haversine_km 0 0 (- x) 0" by (simp add: haversine_km_def)
  then show ?thesis using False assms haversine_km_north[of "- x"] by simp
qed

lemma scan_candidates_step:
  "scan_candidates sd i lat lon (c # cs) m n =
     (if sd (Suc i) then Shutdown
      else if less_min (cand_km lat lon c) m
           then if cand_km lat lon c < 1 / 2
                then Left (Some (cand_km lat lon c)) (Some (cand_data c))
                else scan_candidates sd (Suc i) lat lon cs (Some (cand_km lat lon c)) (Some (cand_data c))
           else scan_candidates sd (Suc i) lat lon cs m n)"
  by (simp add: haversine_distance_total cand_km_def cand_data_def)

lemma scan_exhaustive_step:
  "scan_exhaustive sd i lat lon (c # cs) m n =
     (if sd (Suc i) then Shutdown
      else if less_min (cand_km lat lon c) m
           then scan_exhaustive sd (Suc i) lat lon cs (Some (cand_km lat lon c)) (Some (cand_data c))
           else scan_exhaustive sd (Suc i) lat lon cs m n)"
  by (simp add: haversine_distance_total cand_km_def cand_data_def)

text \<open>No \<open>break\<close> happens when no candidate is within half a kilometre.\<close>

lemma scan_no_break:
  "\<forall>c \<in> set cs. 1 / 2 \<le> cand_km lat lon c \<Longrightarrow>
   scan_candidates sd i lat lon cs m n = scan_exhaustive sd i lat lon cs m n"
proof (induction cs arbitrary: i m n)
  case Nil
  show ?case by simp
next
  case (Cons c cs)
  have "\<not> cand_km lat lon c < 1 / 2" using Cons.prems by simp
  moreover have "\<forall>c \<in> set cs. 1 / 2 \<le> cand_km lat lon c" using Cons.prems by simp
  ultimately show ?case
    unfolding scan_candidates_step scan_exhaustive_step using Cons.IH by simp
qed

text \<open>
  Without a shutdown the loop is left with the two variables.  They name a candidate
  seen so far whenever a candidate was seen, and the distance kept is either below half
  a kilometre (the loop was left by \<open>break\<close>) or the least of all distances.
\<close>

lemma scan_candidates_result:
  assumes "\<forall>k. \<not> sd k" "acc_ok lat lon seen m n"
  shows "\<exists>m' n'. scan_candidates sd i lat lon cs m n = Left m' n'
           \<and> acc_ok lat lon (seen @ cs) m' n'
           \<and> (cs \<noteq> [] \<longrightarrow> m' \<noteq> None)
           \<and> (m \<noteq> None \<longrightarrow> m' \<noteq> None)
           \<and> ((\<exists>d. m' = Some d \<and> d < 1 / 2)
               \<or> ((\<forall>c \<in> set cs. min_le m' (cand_km lat lon c)) \<and> (\<forall>d. m = Some d \<longrightarrow> min_le m' d)))"
  using assms(2)
proof (induction cs arbitrary: i m n seen)
  case Nil
  then show ?case by (auto simp: min_le_def)
next
  case (Cons c cs)
  let ?d = "cand_km lat lon c"
  have nsd: "\<not> sd (Suc i)" using assms(1) by simp
  show ?case
  proof (cases "less_min ?d m")
    case True
    show ?thesis
    proof (cases "?d < 1 / 2")
      case True
      have "scan_candidates sd i lat lon (c # cs) m n = Left (Some ?d) (Some (cand_data c))"
        unfolding scan_candidates_step using nsd \<open>less_min ?d m\<close> True by simp
      moreover have "acc_ok lat lon (seen @ c # cs) (Some ?d) (Some (cand_data c))"
        by (auto simp: acc_ok_def)
      ultimately show ?thesis using True by auto
    next
      case False
      have a: "acc_ok lat lon (seen @ [c]) (Some ?d) (Some (cand_data c))" by (auto simp: acc_ok_def)
      from Cons.IH[OF a, of "Suc i"] obtain m' n' where
        r: "scan_candidates sd (Suc i) lat lon cs (Some ?d) (Some (cand_data c)) = Left m' n'"
           "acc_ok lat lon ((seen @ [c]) @ cs) m' n'" "m' \<noteq> None"
           "(\<exists>d. m' = Some d \<and> d < 1 / 2)
               \<or> ((\<forall>c' \<in> set cs. min_le m' (cand_km lat lon c')) \<and> min_le m' ?d)"
        by auto
      have s: "scan_candidates sd i lat lon (c # cs) m n = Left m' n'"
        unfolding scan_candidates_step using nsd \<open>less_min ?d m\<close> False r(1) by simp
      have "(\<forall>d. m = Some d \<longrightarrow> min_le m' d)" if "min_le m' ?d"
        using that \<open>less_min ?d m\<close> by (auto simp: min_le_def less_min_def split: option.splits)
      then show ?thesis using s r(2,3,4) by auto
    qed
  next
    case False
    then obtain x where m: "m = Some x" "x \<le> ?d" by (auto simp: less_min_def split: option.splits)
    have a: "acc_ok lat lon (seen @ [c]) m n" using Cons.prems by (auto simp: acc_ok_def)
    from Cons.IH[OF a, of "Suc i"] obtain m' n' where
      r: "scan_candidates sd (Suc i) lat lon cs m n = Left m' n'"
         "acc_ok lat lon ((seen @ [c]) @ cs) m' n'" "m' \<noteq> None"
         "(\<exists>d. m' = Some d \<and> d < 1 / 2)
             \<or> ((\<forall>c' \<in> set cs. min_le m' (cand_km lat lon c')) \<and> min_le m' x)"
      using m(1) by auto
    have s: "scan_candidates sd i lat lon (c # cs) m n = Left m' n'"
      unfolding scan_candidates_step using nsd False r(1) by simp
    have "min_le m' ?d" if "min_le m' x" using that m(2) by (auto simp: min_le_def split: option.splits)
    then show ?thesis using s r(2,3,4) m(1) by auto
  qed
qed

lemma scan_candidates_acc:
  "acc_ok lat lon seen m n \<Longrightarrow>
   scan_candidates sd i lat lon cs m n = Shutdown
   \<or> (\<exists>m' n'. scan_candidates sd i lat lon cs m n = Left m' n' \<and> acc_ok lat lon (seen @ cs) m' n')"
proof (induction cs arbitrary: i m n seen)
  case Nil
  then show ?case by simp
next
  case (Cons c cs)
  have a: "acc_ok lat lon (seen @ [c]) (Some (cand_km lat lon c)) (Some (cand_data c))"
    by (auto simp: acc_ok_def)
  have b: "acc_ok lat lon (seen @ [c]) m n" using Cons.prems by (auto simp: acc_ok_def)
  have c: "acc_ok lat lon (seen @ c # cs) (Some (cand_km lat lon c)) (Some (cand_data c))"
    by (auto simp: acc_ok_def)
  show ?case
    unfolding scan_candidates_step
    using Cons.IH[OF a, of "Suc i"] Cons.IH[OF b, of "Suc i"] c by auto
qed

lemma find_nearest_location_cases:
  "find_nearest_location dcos sd lat lon table mx =
     (if sd 0 \<or> box_candidates dcos lat lon table mx = [] then None
      else case scan_candidates sd 0 lat lon (box_candidates dcos lat lon table mx) None None of
             Shutdown \<Rightarrow> None
           | Raised e \<Rightarrow> None
           | Left m n \<Rightarrow>
              (case n of
                 Some (nm, admin1, country) \<Rightarrow>
                   if min_le m mx then format_location_string nm admin1 country else None
               | None \<Rightarrow> None))"
  by (auto simp: find_nearest_location_def find_nearest_location_try_def box_candidates_def Let_def
           split: sum.splits option.splits prod.splits scan_end.splits)

lemma find_nearest_exhaustive_cases:
  "find_nearest_exhaustive dcos sd lat lon table mx =
     (if sd 0 \<or> box_candidates dcos lat lon table mx = [] then None
      else case scan_exhaustive sd 0 lat lon (box_candidates dcos lat lon table mx) None None of
             Shutdown \<Rightarrow> None
           | Raised e \<Rightarrow> None
           | Left m n \<Rightarrow>
              (case n of
                 Some (nm, admin1, country) \<Rightarrow>
                   if min_le m mx then format_location_string nm admin1 country else None
               | None \<Rightarrow> None))"
  by (auto simp: find_nearest_exhaustive_def box_candidates_def Let_def
           split: sum.splits option.splits prod.splits scan_end.splits)

lemma acc_ok_start: "acc_ok lat lon [] None None"
  by (simp add: acc_ok_def)

lemma find_nearest_location_beyond:
  assumes "\<forall>c \<in> set (box_candidates dcos lat lon table mx). mx < cand_km lat lon c"
  shows "find_nearest_location dcos sd lat lon table mx = None"
proof -
  let ?cs = "box_candidates dcos lat lon table mx"
  from scan_candidates_acc[OF acc_ok_start, of sd 0 lat lon ?cs]
  consider "scan_candidates sd 0 lat lon ?cs None None = Shutdown"
    | m n where "scan_candidates sd 0 lat lon ?cs None None = Left m n" "acc_ok lat lon ?cs m n"
    by auto
  then show ?thesis
  proof cases
    case 1
    then show ?thesis by (simp add: find_nearest_location_cases)
  next
    case 2
    from 2(2) have "n = None \<or> \<not> min_le m mx"
      using assms by (auto simp: acc_ok_def min_le_def)
    then show ?thesis using 2(1)
      by (auto simp: find_nearest_location_cases split: option.splits)
  qed
qed

lemma find_nearest_location_found:
  assumes nosd: "\<forall>k. \<not> sd k"
    and big: "1 / 2 \<le> mx"
    and ex: "\<exists>c \<in> set (box_candidates dcos lat lon table mx). cand_km lat lon c \<le> mx"
  shows "\<exists>c \<in> set (box_candidates dcos lat lon table mx).
           cand_km lat lon c \<le> mx
           \<and> ((\<forall>c' \<in> set (box_candidates dcos lat lon table mx). cand_km lat lon c \<le> cand_km lat lon c')
               \<or> cand_km lat lon c < 1 / 2)
           \<and> find_nearest_location dcos sd lat lon table mx = format_candidate c"
proof -
  let ?cs = "box_candidates dcos lat lon table mx"
  from ex obtain c0 where c0: "c0 \<in> set ?cs" "cand_km lat lon c0 \<le> mx" by blast
  then have ne: "?cs \<noteq> []" by auto
  from scan_candidates_result[OF nosd acc_ok_start, of 0 lat lon ?cs] ne
  obtain d n where r: "scan_candidates sd 0 lat lon ?cs None None = Left (Some d) n"
      "acc_ok lat lon ?cs (Some d) n"
      "d < 1 / 2 \<or> (\<forall>c \<in> set ?cs. d \<le> cand_km lat lon c)"
    by (auto simp: min_le_def)
  from r(2) obtain c where c: "c \<in> set ?cs" "d = cand_km lat lon c" "n = Some (cand_data c)"
    by (auto simp: acc_ok_def)
  have le: "d \<le> mx" using r(3) big c0 by auto
  have "find_nearest_location dcos sd lat lon table mx = format_candidate c"
    using nosd ne r(1) c(3) le
    by (simp add: find_nearest_location_cases cand_data_def min_le_def format_candidate_def)
  then show ?thesis using c le r(3) by auto
qed

lemma format_candidate_some: "truthy_str (name c) \<Longrightarrow> format_candidate c \<noteq> None"
  by (simp add: format_candidate_def format_location_string_def Let_def)

subsection \<open>C4: the radius test\<close>

text \<open>
  C4.  The candidates are the rows the bounding-box query returns.  When no shutdown is
  requested during the call, the radius is at least half a kilometre (the only caller
  uses the default of 50), every candidate has a non-empty name and some candidate lies
  within the radius, bound included, then \<open>find_nearest_location\<close> returns the formatted
  string of a candidate within the radius.  When every candidate lies beyond the radius,
  or there is none, it returns \<open>None\<close>.
\<close>

theorem find_nearest_location_radius:
  "((\<forall>k. \<not> sd k) \<and> 1 / 2 \<le> mx
      \<and> (\<forall>c \<in> set (box_candidates dcos lat lon table mx). truthy_str (name c))
      \<and> (\<exists>c \<in> set (box_candidates dcos lat lon table mx). cand_km lat lon c \<le> mx)
     \<longrightarrow> (\<exists>c \<in> set (box_candidates dcos lat lon table mx).
            cand_km lat lon c \<le> mx
            \<and> find_nearest_location dcos sd lat lon table mx = format_candidate c
            \<and> find_nearest_location dcos sd lat lon table mx \<noteq> None))
   \<and> ((\<forall>c \<in> set (box_candidates dcos lat lon table mx). mx < cand_km lat lon c)
     \<longrightarrow> find_nearest_location dcos sd lat lon table mx = None)"
proof (intro conjI impI)
  assume h: "(\<forall>k. \<not> sd k) \<and> 1 / 2 \<le> mx
      \<and> (\<forall>c \<in> set (box_candidates dcos lat lon table mx). truthy_str (name c))
      \<and> (\<exists>c \<in> set (box_candidates dcos lat lon table mx). cand_km lat lon c \<le> mx)"
  then obtain c where c: "c \<in> set (box_candidates dcos lat lon table mx)" "cand_km lat lon c \<le> mx"
      "find_nearest_location dcos sd lat lon table mx = format_candidate c"
    using find_nearest_location_found[where sd = sd and mx = mx and lat = lat and lon = lon and table = table and dcos = dcos] by blast
  moreover have "format_candidate c \<noteq> None" using h c(1) by (simp add: format_candidate_some)
  ultimately show "\<exists>c \<in> set (box_candidates dcos lat lon table mx).
            cand_km lat lon c \<le> mx
            \<and> find_nearest_location dcos sd lat lon table mx = format_candidate c
            \<and> find_nearest_location dcos sd lat lon table mx \<noteq> None"
    by auto
next
  assume "\<forall>c \<in> set (box_candidates dcos lat lon table mx). mx < cand_km lat lon c"
  then show "find_nearest_location dcos sd lat lon table mx = None"
    by (rule find_nearest_location_beyond)
qed

subsection \<open>C5: the early exit\<close>

text \<open>
  While the loop runs, the distance it keeps is at least half a kilometre, so the first
  candidate below half a kilometre improves on it and ends the loop.
\<close>

lemma scan_first_close:
  assumes "\<forall>k. \<not> sd k"
    and "m = None \<or> (\<exists>x. m = Some x \<and> 1 / 2 \<le> x)"
    and "find (\<lambda>c. cand_km lat lon c < 1 / 2) cs = Some c"
  shows "scan_candidates sd i lat lon cs m n = Left (Some (cand_km lat lon c)) (Some (cand_data c))"
  using assms(2,3)
proof (induction cs arbitrary: i m n)
  case Nil
  then show ?case by simp
next
  case (Cons q cs)
  have nsd: "\<not> sd (Suc i)" using assms(1) by simp
  show ?case
  proof (cases "cand_km lat lon q < 1 / 2")
    case True
    then have "c = q" using Cons.prems(2) by simp
    moreover have "less_min (cand_km lat lon q) m"
      using True Cons.prems(1) by (auto simp: less_min_def)
    ultimately show ?thesis
      unfolding scan_candidates_step using nsd True by simp
  next
    case False
    then have f: "find (\<lambda>c. cand_km lat lon c < 1 / 2) cs = Some c" using Cons.prems(2) by simp
    have a: "Some (cand_km lat lon q) = None \<or> (\<exists>x. Some (cand_km lat lon q) = Some x \<and> 1 / 2 \<le> x)"
      using False by simp
    show ?thesis
      unfolding scan_candidates_step
      using nsd False Cons.IH[OF a f, of "Suc i"] Cons.IH[OF Cons.prems(1) f, of "Suc i"]
      by simp
  qed
qed

text \<open>
  C5.  The scan with the early exit returns what the exhaustive scan returns whenever no
  candidate is closer than half a kilometre.  Otherwise (no shutdown, radius at least half
  a kilometre) it returns the string of the first candidate, in the order of the query,
  that is closer than half a kilometre, whether or not a later candidate is nearer.
\<close>

theorem early_exit_returns_first_close:
  "((\<forall>c \<in> set (box_candidates dcos lat lon table mx). 1 / 2 \<le> cand_km lat lon c)
     \<longrightarrow> find_nearest_location dcos sd lat lon table mx = find_nearest_exhaustive dcos sd lat lon table mx)
   \<and> ((\<forall>k. \<not> sd k) \<and> 1 / 2 \<le> mx
     \<longrightarrow> (\<forall>c. find (\<lambda>c. cand_km lat lon c < 1 / 2) (box_candidates dcos lat lon table mx) = Some c
            \<longrightarrow> find_nearest_location dcos sd lat lon table mx = format_candidate c))"
proof (intro conjI impI allI)
  assume "\<forall>c \<in> set (box_candidates dcos lat lon table mx). 1 / 2 \<le> cand_km lat lon c"
  then show "find_nearest_location dcos sd lat lon table mx = find_nearest_exhaustive dcos sd lat lon table mx"
    by (simp add: find_nearest_location_cases find_nearest_exhaustive_cases scan_no_break)
next
  fix c
  assume h: "(\<forall>k. \<not> sd k) \<and> 1 / 2 \<le> mx"
    and f: "find (\<lambda>c. cand_km lat lon c < 1 / 2) (box_candidates dcos lat lon table mx) = Some c"
  from f have close: "cand_km lat lon c < 1 / 2" and ne: "box_candidates dcos lat lon table mx \<noteq> []"
    by (auto simp: find_Some_iff)
  have s: "scan_candidates sd 0 lat lon (box_candidates dcos lat lon table mx) None None
             = Left (Some (cand_km lat lon c)) (Some (cand_data c))"
    using scan_first_close[where m = None, OF _ _ f] h by simp
  show "find_nearest_location dcos sd lat lon table mx = format_candidate c"
    using h ne close
    by (simp add: find_nearest_location_cases s cand_data_def min_le_def format_candidate_def)
qed

subsection \<open>C6: the longitude buffer at the poles\<close>

lemma scan_candidates_not_raised:
  "scan_candidates sd i lat lon cs None None \<noteq> Raised e"
  using scan_candidates_acc[OF acc_ok_start, of sd i lat lon cs] by auto

text \<open>
  Were the library to return exactly zero, the division would raise and the handler of
  \<open>find_nearest_location\<close> would turn the exception into \<open>None\<close>.
\<close>

lemma find_nearest_location_zero_cosine:
  "dcos lat = 0 \<Longrightarrow>
     find_nearest_location_try dcos sd lat lon table mx = Inl ZeroDivisionError
     \<and> find_nearest_location dcos sd lat lon table mx = None"
  by (simp add: find_nearest_location_def find_nearest_location_try_def bounding_buffers_def)

lemma wide_box:
  assumes "dcos lat \<noteq> 0" "111 * 360 * \<bar>dcos lat\<bar> \<le> mx" "\<bar>lon\<bar> \<le> 180" "\<bar>longitude r\<bar> \<le> 180"
  shows "in_box lat lon (mx / 111) (mx / (111 * \<bar>dcos lat\<bar>)) r
           \<longleftrightarrow> lat - mx / 111 \<le> latitude r \<and> latitude r \<le> lat + mx / 111"
proof -
  have p: "0 < 111 * \<bar>dcos lat\<bar>" using assms(1) by simp
  have "360 * (111 * \<bar>dcos lat\<bar>) \<le> mx" using assms(2) by simp
  then have "360 \<le> mx / (111 * \<bar>dcos lat\<bar>)" using p by (simp add: pos_le_divide_eq)
  then have "lon - mx / (111 * \<bar>dcos lat\<bar>) \<le> longitude r" "longitude r \<le> lon + mx / (111 * \<bar>dcos lat\<bar>)"
    using assms(3,4) by linarith+
  then show ?thesis by (simp add: in_box_def)
qed

text \<open>
  C6.  Whenever the library's cosine of the query latitude is not zero, as it is at
  exactly 90 and -90 degrees in double precision, the computation of the longitude buffer
  does not raise, and with a table in the store the body of \<open>find_nearest_location\<close> raises
  nothing at all; the buffer is \<open>max_distance_km / (111 * |cos|)\<close>.  When the cosine is
  so small that this buffer reaches 360 degrees, as at the poles, the box has no horizontal
  bound: the candidates are all the rows of the latitude band, whatever their longitude.
  That is the opposite of a box of zero width.
\<close>

theorem pole_box_spans_all_longitudes:
  "(dcos lat \<noteq> 0 \<longrightarrow>
      bounding_buffers dcos lat mx = Inr (mx / 111, mx / (111 * \<bar>dcos lat\<bar>))
      \<and> (\<exists>r. find_nearest_location_try dcos sd lat lon (Some rows) mx = Inr r))
   \<and> (dcos lat \<noteq> 0 \<and> 111 * 360 * \<bar>dcos lat\<bar> \<le> mx \<and> \<bar>lon\<bar> \<le> 180
        \<and> (\<forall>r \<in> set rows. \<bar>longitude r\<bar> \<le> 180) \<longrightarrow>
      box_candidates dcos lat lon (Some rows) mx
        = filter (\<lambda>r. lat - mx / 111 \<le> latitude r \<and> latitude r \<le> lat + mx / 111) rows)"
proof (intro conjI impI)
  assume nz: "dcos lat \<noteq> 0"
  then show b: "bounding_buffers dcos lat mx = Inr (mx / 111, mx / (111 * \<bar>dcos lat\<bar>))"
    by (simp add: bounding_buffers_def)
  show "\<exists>r. find_nearest_location_try dcos sd lat lon (Some rows) mx = Inr r"
    using scan_candidates_not_raised[of sd 0 lat lon]
    by (auto simp: find_nearest_location_try_def b Let_def split: scan_end.splits option.splits)
next
  assume h: "dcos lat \<noteq> 0 \<and> 111 * 360 * \<bar>dcos lat\<bar> \<le> mx \<and> \<bar>lon\<bar> \<le> 180
        \<and> (\<forall>r \<in> set rows. \<bar>longitude r\<bar> \<le> 180)"
  then have b: "bounding_buffers dcos lat mx = Inr (mx / 111, mx / (111 * \<bar>dcos lat\<bar>))"
    by (simp add: bounding_buffers_def)
  have "filter (in_box lat lon (mx / 111) (mx / (111 * \<bar>dcos lat\<bar>))) rows
          = filter (\<lambda>r. lat - mx / 111 \<le> latitude r \<and> latitude r \<le> lat + mx / 111) rows"
    using h by (intro filter_cong refl wide_box) auto
  then show "box_candidates dcos lat lon (Some rows) mx
        = filter (\<lambda>r. lat - mx / 111 \<le> latitude r \<and> latitude r \<le> lat + mx / 111) rows"
    by (simp add: box_candidates_def b box_query_def)
qed

subsection \<open>Concrete tables\<close>

lemma place_sel [simp]:
  "name (place gid nm la lo) = Some nm" "latitude (place gid nm la lo) = la"
  "longitude (place gid nm la lo) = lo" "admin1_code (place gid nm la lo) = None"
  "country_code (place gid nm la lo) = Some ''XX''"
  by (simp_all add: place_def)

lemma radians_0 [simp]: "radians 0 = 0"
  by (simp add: radians_def)

lemma radians_90 [simp]: "radians 90 = pi / 2"
  by (simp add: radians_def)

lemma double_cos_radians_0 [simp]: "double_cos_radians 0 = 1"
  by (simp add: double_cos_radians_def)

lemma double_cos_radians_90 [simp]: "double_cos_radians 90 = 4967757600021511 / 2 ^ 106"
  by (simp add: double_cos_radians_def)

lemma buffers_equator: "bounding_buffers double_cos_radians 0 mx = Inr (mx / 111, mx / 111)"
  by (simp add: bounding_buffers_def)

lemma candidates_equator:
  "box_candidates double_cos_radians 0 0 (Some rows) 50 = filter (in_box 0 0 (50 / 111) (50 / 111)) rows"
  by (simp add: box_candidates_def buffers_equator box_query_def)

lemma format_place: "nm \<noteq> [] \<Longrightarrow> format_candidate (place gid nm la lo) = Some (nm @ '', XX'')"
  by (simp add: format_candidate_def format_location_string_def truthy_str_def)

lemma cand_km_here: "cand_km lat lon (place gid nm lat lon) = 0"
  by (simp add: cand_km_def haversine_km_same)

lemma cand_km_meridian:
  "\<bar>x\<bar> \<le> 180 \<Longrightarrow> cand_km 0 0 (place gid nm x 0) = 6371 * (\<bar>x\<bar> * pi / 180)"
  by (simp add: cand_km_def haversine_km_meridian radians_def)

lemma near_south: "0 < cand_km 0 0 (place 1 ''Nearby'' (- (1 / 1000)) 0)"
  "cand_km 0 0 (place 1 ''Nearby'' (- (1 / 1000)) 0) < 1 / 2"
proof -
  have e: "cand_km 0 0 (place 1 ''Nearby'' (- (1 / 1000)) 0) = 6371 * (\<bar>- (1 / 1000)\<bar> * pi / 180)"
    by (rule cand_km_meridian) simp
  show "0 < cand_km 0 0 (place 1 ''Nearby'' (- (1 / 1000)) 0)" unfolding e by simp
  show "cand_km 0 0 (place 1 ''Nearby'' (- (1 / 1000)) 0) < 1 / 2" unfolding e using pi_less_4 by simp
qed

lemma far_north: "1 / 2 \<le> cand_km 0 0 (place 3 ''Far'' (1 / 20) 0)"
  "cand_km 0 0 (place 3 ''Far'' (1 / 20) 0) \<le> 50"
proof -
  have e: "cand_km 0 0 (place 3 ''Far'' (1 / 20) 0) = 6371 * (\<bar>1 / 20\<bar> * pi / 180)"
    by (rule cand_km_meridian) simp
  show "1 / 2 \<le> cand_km 0 0 (place 3 ''Far'' (1 / 20) 0)" unfolding e using pi_ge_two by simp
  show "cand_km 0 0 (place 3 ''Far'' (1 / 20) 0) \<le> 50" unfolding e using pi_less_4 by simp
qed

text \<open>
  C4, as stated, fails: a row with an empty name at the query point is the nearest
  candidate, at distance 0, and \<open>format_location_string\<close> returns \<open>None\<close> for it.
\<close>

theorem find_nearest_location_radius_counterexample:
  "box_candidates double_cos_radians 0 0 (Some [place 4 '''' 0 0]) 50 = [place 4 '''' 0 0]
   \<and> cand_km 0 0 (place 4 '''' 0 0) \<le> 50
   \<and> find_nearest_location double_cos_radians no_shutdown 0 0 (Some [place 4 '''' 0 0]) 50 = None"
proof -
  have c: "box_candidates double_cos_radians 0 0 (Some [place 4 '''' 0 0]) 50 = [place 4 '''' 0 0]"
    by (simp add: candidates_equator in_box_def)
  have "find_nearest_location double_cos_radians no_shutdown 0 0 (Some [place 4 '''' 0 0]) 50 = None"
    unfolding find_nearest_location_cases c scan_candidates_step cand_km_here
    by (simp add: no_shutdown_def less_min_def min_le_def cand_data_def
          format_location_string_def truthy_str_def)
  then show ?thesis using c by (simp add: cand_km_here)
qed

theorem find_nearest_location_radius_witness:
  "(\<exists>c \<in> set (box_candidates double_cos_radians 0 0 (Some [place 3 ''Far'' (1 / 20) 0]) 50).
      cand_km 0 0 c \<le> 50
      \<and> find_nearest_location double_cos_radians no_shutdown 0 0 (Some [place 3 ''Far'' (1 / 20) 0]) 50
          = format_candidate c
      \<and> find_nearest_location double_cos_radians no_shutdown 0 0 (Some [place 3 ''Far'' (1 / 20) 0]) 50 \<noteq> None)
   \<and> find_nearest_location double_cos_radians no_shutdown 0 0 (Some [place 5 ''Elsewhere'' 10 10]) 50 = None"
proof -
  have c: "box_candidates double_cos_radians 0 0 (Some [place 3 ''Far'' (1 / 20) 0]) 50
             = [place 3 ''Far'' (1 / 20) 0]"
    by (simp add: candidates_equator in_box_def)
  have h1: "(\<forall>k. \<not> no_shutdown k) \<and> 1 / 2 \<le> (50::real)
      \<and> (\<forall>c \<in> set (box_candidates double_cos_radians 0 0 (Some [place 3 ''Far'' (1 / 20) 0]) 50).
            truthy_str (name c))
      \<and> (\<exists>c \<in> set (box_candidates double_cos_radians 0 0 (Some [place 3 ''Far'' (1 / 20) 0]) 50).
            cand_km 0 0 c \<le> 50)"
    unfolding c using far_north(2) by (simp add: no_shutdown_def truthy_str_def)
  have h2: "\<forall>c \<in> set (box_candidates double_cos_radians 0 0 (Some [place 5 ''Elsewhere'' 10 10]) 50).
              50 < cand_km 0 0 c"
    by (simp add: candidates_equator in_box_def)
  show ?thesis
    using find_nearest_location_radius[where sd = no_shutdown and mx = 50 and lat = 0 and lon = 0
        and dcos = double_cos_radians and table = "Some [place 3 ''Far'' (1 / 20) 0]"]
      find_nearest_location_radius[where sd = no_shutdown and mx = 50 and lat = 0 and lon = 0
        and dcos = double_cos_radians and table = "Some [place 5 ''Elsewhere'' 10 10]"] h1 h2
    by blast
qed

text \<open>
  C5, as stated, fails: with a place about 111 m south of the query point returned
  before a place at the query point itself, the loop stops at the first and returns it;
  the exhaustive scan returns the second.
\<close>

theorem early_exit_counterexample:
  "find_nearest_location double_cos_radians no_shutdown 0 0
      (Some [place 1 ''Nearby'' (- (1 / 1000)) 0, place 2 ''Here'' 0 0]) 50 = Some ''Nearby, XX''
   \<and> find_nearest_exhaustive double_cos_radians no_shutdown 0 0
      (Some [place 1 ''Nearby'' (- (1 / 1000)) 0, place 2 ''Here'' 0 0]) 50 = Some ''Here, XX''"
proof -
  let ?A = "place 1 ''Nearby'' (- (1 / 1000)) 0"
  let ?B = "place 2 ''Here'' 0 0"
  have c: "box_candidates double_cos_radians 0 0 (Some [?A, ?B]) 50 = [?A, ?B]"
    by (simp add: candidates_equator in_box_def)
  have "scan_candidates no_shutdown 0 0 0 [?A, ?B] None None
          = Left (Some (cand_km 0 0 ?A)) (Some (cand_data ?A))"
    unfolding scan_candidates_step using near_south(2) by (simp add: no_shutdown_def less_min_def)
  then have 1: "find_nearest_location double_cos_radians no_shutdown 0 0 (Some [?A, ?B]) 50
                  = Some ''Nearby, XX''"
    unfolding find_nearest_location_cases c using near_south(2)
    by (simp add: no_shutdown_def min_le_def cand_data_def format_location_string_def truthy_str_def)
  have "scan_exhaustive no_shutdown 0 0 0 [?A, ?B] None None
          = Left (Some 0) (Some (cand_data ?B))"
    unfolding scan_exhaustive_step cand_km_here using near_south(1)
    by (simp add: no_shutdown_def less_min_def)
  then have 2: "find_nearest_exhaustive double_cos_radians no_shutdown 0 0 (Some [?A, ?B]) 50
                  = Some ''Here, XX''"
    unfolding find_nearest_exhaustive_cases c
    by (simp add: no_shutdown_def min_le_def cand_data_def format_location_string_def truthy_str_def)
  show ?thesis using 1 2 by simp
qed

theorem early_exit_returns_first_close_witness:
  "find_nearest_location double_cos_radians no_shutdown 0 0 (Some [place 3 ''Far'' (1 / 20) 0]) 50
     = find_nearest_exhaustive double_cos_radians no_shutdown 0 0 (Some [place 3 ''Far'' (1 / 20) 0]) 50
   \<and> find_nearest_location double_cos_radians no_shutdown 0 0
        (Some [place 3 ''Far'' (1 / 20) 0, place 1 ''Nearby'' (- (1 / 1000)) 0, place 2 ''Here'' 0 0]) 50
      = format_candidate (place 1 ''Nearby'' (- (1 / 1000)) 0)"
proof -
  have c1: "box_candidates double_cos_radians 0 0 (Some [place 3 ''Far'' (1 / 20) 0]) 50
              = [place 3 ''Far'' (1 / 20) 0]"
    by (simp add: candidates_equator in_box_def)
  have h1: "\<forall>c \<in> set (box_candidates double_cos_radians 0 0 (Some [place 3 ''Far'' (1 / 20) 0]) 50).
              1 / 2 \<le> cand_km 0 0 c"
    unfolding c1 using far_north(1) by simp
  have c2: "box_candidates double_cos_radians 0 0
              (Some [place 3 ''Far'' (1 / 20) 0, place 1 ''Nearby'' (- (1 / 1000)) 0, place 2 ''Here'' 0 0]) 50
              = [place 3 ''Far'' (1 / 20) 0, place 1 ''Nearby'' (- (1 / 1000)) 0, place 2 ''Here'' 0 0]"
    by (simp add: candidates_equator in_box_def)
  have h2: "(\<forall>k. \<not> no_shutdown k) \<and> 1 / 2 \<le> (50::real)" by (simp add: no_shutdown_def)
  have h3: "find (\<lambda>c. cand_km 0 0 c < 1 / 2)
              (box_candidates double_cos_radians 0 0
                (Some [place 3 ''Far'' (1 / 20) 0, place 1 ''Nearby'' (- (1 / 1000)) 0, place 2 ''Here'' 0 0]) 50)
              = Some (place 1 ''Nearby'' (- (1 / 1000)) 0)"
    unfolding c2 using far_north(1) near_south(2) by simp
  show ?thesis
    using early_exit_returns_first_close[where dcos = double_cos_radians and sd = no_shutdown
        and lat = 0 and lon = 0 and mx = 50 and table = "Some [place 3 ''Far'' (1 / 20) 0]"]
      early_exit_returns_first_close[where dcos = double_cos_radians and sd = no_shutdown
        and lat = 0 and lon = 0 and mx = 50
        and table = "Some [place 3 ''Far'' (1 / 20) 0, place 1 ''Nearby'' (- (1 / 1000)) 0, place 2 ''Here'' 0 0]"]
      h1 h2 h3
    by blast
qed

text \<open>
  C6, as stated, fails: at latitude 90 a box of zero width in longitude holds no place
  ten degrees east of the query point and the resolver would return \<open>None\<close>; the code,
  whose longitude buffer is about \<open>7.4e15\<close> degrees there, returns that place.
\<close>

lemma pole_buffers:
  "bounding_buffers double_cos_radians 90 50
     = Inr (50 / 111, 50 / (111 * (4967757600021511 / 2 ^ 106)))"
  by (simp add: bounding_buffers_def)

lemma cand_km_pole: "cand_km 90 lon (place gid nm 90 lo) = 0"
  by (simp add: cand_km_def haversine_km_def haversine_a_def)

theorem find_nearest_location_pole_counterexample:
  "find_nearest_location double_cos_radians no_shutdown 90 0 (Some [place 6 ''East'' 90 10]) 50
     = Some ''East, XX''
   \<and> find_nearest_degenerate double_cos_radians no_shutdown 90 0 (Some [place 6 ''East'' 90 10]) 50
     = None"
proof -
  have c: "box_candidates double_cos_radians 90 0 (Some [place 6 ''East'' 90 10]) 50
             = [place 6 ''East'' 90 10]"
    by (simp add: box_candidates_def pole_buffers box_query_def in_box_def)
  have 1: "find_nearest_location double_cos_radians no_shutdown 90 0 (Some [place 6 ''East'' 90 10]) 50
             = Some ''East, XX''"
    unfolding find_nearest_location_cases c scan_candidates_step cand_km_pole
    by (simp add: no_shutdown_def less_min_def min_le_def cand_data_def
          format_location_string_def truthy_str_def)
  have b: "bounding_buffers_degenerate double_cos_radians 90 50 = (50 / 111, 0)"
    by (simp add: bounding_buffers_degenerate_def)
  have q: "box_query 90 0 (50 / 111) 0 [place 6 ''East'' 90 10] = []"
    by (simp add: box_query_def in_box_def)
  have 2: "find_nearest_degenerate double_cos_radians no_shutdown 90 0 (Some [place 6 ''East'' 90 10]) 50
             = None"
    unfolding find_nearest_degenerate_def b by (simp add: q no_shutdown_def)
  show ?thesis using 1 2 by simp
qed

theorem pole_box_spans_all_longitudes_witness:
  "bounding_buffers double_cos_radians 90 50
      = Inr (50 / 111, 50 / (111 * \<bar>double_cos_radians 90\<bar>))
   \<and> (\<exists>r. find_nearest_location_try double_cos_radians no_shutdown 90 0
             (Some [place 6 ''East'' 90 10, place 7 ''Pole'' 90 0, place 8 ''Equator'' 0 0]) 50 = Inr r)
   \<and> box_candidates double_cos_radians 90 0
        (Some [place 6 ''East'' 90 10, place 7 ''Pole'' 90 0, place 8 ''Equator'' 0 0]) 50
      = filter (\<lambda>r. 90 - 50 / 111 \<le> latitude r \<and> latitude r \<le> 90 + 50 / 111)
          [place 6 ''East'' 90 10, place 7 ''Pole'' 90 0, place 8 ''Equator'' 0 0]"
proof -
  have h: "double_cos_radians 90 \<noteq> 0 \<and> 111 * 360 * \<bar>double_cos_radians 90\<bar> \<le> 50 \<and> \<bar>0::real\<bar> \<le> 180
        \<and> (\<forall>r \<in> set [place 6 ''East'' 90 10, place 7 ''Pole'' 90 0, place 8 ''Equator'' 0 0].
              \<bar>longitude r\<bar> \<le> 180)"
    by simp
  show ?thesis
    using pole_box_spans_all_longitudes[where dcos = double_cos_radians and lat = 90 and lon = 0
        and mx = 50 and sd = no_shutdown
        and rows = "[place 6 ''East'' 90 10, place 7 ''Pole'' 90 0, place 8 ''Equator'' 0 0]"] h
    by blast
qed

section \<open>Properties of the gazetteer import\<close>


lemma strip_paris: "strip paris_no_latitude =
     ''2988507'' @ [tab] @ ''Paris'' @ [tab] @ ''Paris'' @ [tab] @ ''Lutece'' @ [tab] @ [tab]
       @ ''2.3488'' @ [tab] @ ''P'' @ [tab] @ ''PPLC'' @ [tab] @ ''FR''"
  by (simp add: strip_def paris_no_latitude_def isspace_def tab_def)

lemma fields_paris: "split_on tab (strip paris_no_latitude) =
   [''2988507'', ''Paris'', ''Paris'', ''Lutece'', [], ''2.3488'', ''P'', ''PPLC'', ''FR'']"
  unfolding strip_paris by (simp add: split_on_def tab_def)

lemma int_paris: "decimal_int ''2988507'' = Some 2988507"
  by (simp add: decimal_int_def digit_of_def)

lemma float_paris: "decimal_float ''2.3488'' = Some (23488 / 10000)"
  by (simp add: decimal_float_def digit_of_def)

text \<open>
  The only exception the conversions raise is \<open>ValueError\<close>, which the handler of the loop
  catches.
\<close>

lemma convert_fields_error: "convert_fields py_int py_float flds = Inl e \<Longrightarrow> e = ValueError"
  by (auto simp: convert_fields_def split: if_splits option.splits sum.splits)

text \<open>A line with fewer than nine fields is skipped and counted.\<close>

lemma import_line_short:
  "length (split_on tab (strip line)) < 9 \<Longrightarrow>
   import_line py_int py_float st line = Inr (st\<lparr>import_error_count := import_error_count st + 1\<rparr>)"
  by (simp add: import_line_def)

text \<open>
  A line ends the import only through the \<open>INSERT\<close>: the one exception that leaves the
  loop is the \<open>OverflowError\<close> for an id outside the signed 64-bit range.
\<close>

lemma import_line_raises: "import_line py_int py_float st line = Inl e \<Longrightarrow> e = OverflowError"
proof (cases "convert_fields py_int py_float (split_on tab (strip line))")
  case (Inl e')
  assume a: "import_line py_int py_float st line = Inl e"
  from Inl have "e' = ValueError" by (rule convert_fields_error)
  then show ?thesis using Inl a by (simp add: import_line_def Let_def split: if_splits)
next
  case (Inr t)
  assume a: "import_line py_int py_float st line = Inl e"
  then show ?thesis using Inr
    by (cases t) (auto simp: import_line_def Let_def split: option.splits if_splits)
qed

lemma import_line_overflow:
  assumes "9 \<le> length (split_on tab (strip line))"
    and "convert_fields py_int py_float (split_on tab (strip line)) = Inr (Some g, Some la, Some lo)"
    and "2 ^ 63 \<le> g"
  shows "import_line py_int py_float st line = Inl OverflowError"
  using assms by (auto simp: import_line_def Let_def)

text \<open>
  A line with nine fields whose conversions succeed but whose id, latitude or longitude
  is missing (or whose id is 0) leaves the state as it is: nothing is inserted and
  nothing is counted.
\<close>

lemma import_line_missing_coordinate:
  assumes "9 \<le> length (split_on tab (strip line))"
    and "convert_fields py_int py_float (split_on tab (strip line)) = Inr (gid, lat, lon)"
    and "gid = None \<or> gid = Some 0 \<or> lat = None \<or> lon = None"
  shows "import_line py_int py_float st line = Inr st"
  using assms by (auto simp: import_line_def Let_def split: option.splits)

text \<open>
  C9.  The line \<open>paris_no_latitude\<close> has nine fields, a numeric id and an empty latitude.
  The import skips it, finishes, and leaves the error count at 0: the row is not counted.
\<close>

theorem import_missing_latitude_not_counted:
  "import_locations_to_db decimal_int decimal_float no_shutdown [paris_no_latitude]
     = (True, \<lparr>locations_table = [], committed_table = [], imported_count = 0, import_error_count = 0\<rparr>)"
proof -
  have "import_line decimal_int decimal_float empty_import paris_no_latitude = Inr empty_import"
    unfolding import_line_def fields_paris
    by (simp add: convert_fields_def nonempty_field_def int_paris float_paris)
  then show ?thesis
    by (simp add: import_locations_to_db_def no_shutdown_def empty_import_def commit_def)
qed


section \<open>Properties of the extraction pipeline\<close>


lemma outer_handler_photos:
  "photos (outer_handler env path e st) =
     (case outer_row env path e of Some r \<Rightarrow> (photos st)(path \<mapsto> r) | None \<Rightarrow> photos st)"
  by (simp add: outer_handler_def outer_row_def split: option.splits)



lemma process_file_photos:
  "photos (process_file force skip locs dcos pf env path st) =
     (if path_exists env \<and> \<not> unchanged force pf env path
      then (case stored_row skip locs dcos env path of
              Some r \<Rightarrow> (photos st)(path \<mapsto> r)
            | None \<Rightarrow> photos st)
      else photos st)"
  by (auto simp: process_file_def stored_row_def outer_handler_photos Let_def
           split: sum.splits exn.splits option.splits)




text \<open>
  Without a shutdown, the row of a file in the final store depends on that file alone:
  it is the row that reading the file leaves, or the row the store held before.
\<close>

lemma process_loop_photos:
  "\<forall>p \<in> set files. \<not> shutdown_requested (w p) \<Longrightarrow>
   photos (snd (process_loop force skip locs dcos pf w files st)) p =
     (if p \<in> set files \<and> to_extract force pf w p
      then (case stored_row skip locs dcos (w p) p of Some r \<Rightarrow> Some r | None \<Rightarrow> photos st p)
      else photos st p)"
proof (induction files arbitrary: st)
  case Nil
  show ?case by simp
next
  case (Cons q files)
  then show ?case
    by (auto simp: process_file_photos to_extract_def split: option.splits)
qed



lemma process_images_photos:
  "\<forall>p \<in> set files. \<not> shutdown_requested (w p) \<Longrightarrow>
   photos (snd (process_images force skip locs dcos w files db)) p =
     (if p \<in> set files \<and> to_extract force (processed_files_of force db) w p
      then (case stored_row skip locs dcos (w p) p of Some r \<Rightarrow> Some r | None \<Rightarrow> db p)
      else db p)"
  by (simp add: process_images_def process_loop_photos split: option.splits)




lemma failed_record_props:
  "status (failed_record env path msg) = ''failed''"
  "exif_fields_null (failed_record env path msg)"
  "error_message (failed_record env path msg) = Some msg"
  "filepath (failed_record env path msg) = path"
  "file_hash (failed_record env path msg) = md5 env"
  "file_mtime (failed_record env path msg) = mtime env"
  "processed_at (failed_record env path msg) = Some (now env)"
  by (simp_all add: failed_record_def exif_fields_null_def)

lemma processed_record_props:
  "status (processed_record skip locs dcos env path tags) = ''processed''"
  "error_message (processed_record skip locs dcos env path tags) = None"
  "filepath (processed_record skip locs dcos env path tags) = path"
  "file_hash (processed_record skip locs dcos env path tags) = md5 env"
  "file_mtime (processed_record skip locs dcos env path tags) = mtime env"
  "processed_at (processed_record skip locs dcos env path tags) = Some (now env)"
  by (simp_all add: processed_record_def split: prod.splits)

lemma stored_row_cases:
  assumes "stored_row skip locs dcos env path = Some r"
  shows "(\<exists>tags. extraction env = Inr tags \<and> write_processed env = None
                \<and> r = processed_record skip locs dcos env path tags)
         \<or> (\<exists>msg. r = failed_record env path msg)"
  using assms
  by (auto simp: stored_row_def outer_row_def split: sum.splits exn.splits option.splits)

lemma stored_row_invariant:
  assumes "stored_row skip locs dcos env path = Some r"
  shows "record_invariant r" "filepath r = path" "file_hash r = md5 env"
    "file_mtime r = mtime env" "processed_at r = Some (now env)"
  using stored_row_cases[OF assms]
  by (auto simp: record_invariant_def failed_record_props processed_record_props)




lemma process_loop_written:
  "photos (snd (process_loop force skip locs dcos pf w files st)) p = Some r \<Longrightarrow>
   photos st p = Some r \<or> (record_invariant r \<and> recorded_from w p r)"
proof (induction files arbitrary: st)
  case Nil
  then show ?case by simp
next
  case (Cons q files)
  show ?case
  proof (cases "shutdown_requested (w q)")
    case True
    then show ?thesis using Cons.prems by simp
  next
    case False
    then have "photos (process_file force skip locs dcos pf (w q) q st) p = Some r
                \<or> (record_invariant r \<and> recorded_from w p r)"
      using Cons.IH[of "process_file force skip locs dcos pf (w q) q st"] Cons.prems by simp
    then show ?thesis
      by (auto simp: process_file_photos stored_row_invariant recorded_from_def
               split: if_splits option.splits)
  qed
qed

subsection \<open>C7: the invariant of written rows\<close>

text \<open>
  C7.  Every row that a run of \<open>process_images\<close> writes (every row of the final store that
  is not a row of the initial store) satisfies: \<open>status = 'processed'\<close> implies a null
  error message, and \<open>status = 'failed'\<close> implies that the EXIF-derived fields are null.
  In both cases the row records the path, and the hash, modification time and processing
  time obtained for the file (the hash and the time are themselves null when the file
  could not be read).
\<close>

theorem written_records_keep_invariant:
  assumes "photos (snd (process_images force skip locs dcos w files db)) p = Some r"
    and "db p \<noteq> Some r"
  shows "record_invariant r \<and> recorded_from w p r"
proof -
  have "photos (snd (process_loop force skip locs dcos (processed_files_of force db) w files
          \<lparr>photos = db, image_count = 0, skipped_count = 0, error_count = 0, gps_count = 0,
           new_count = 0, updated_count = 0, opened = []\<rparr>)) p = Some r"
    using assms(1) by (simp add: process_images_def)
  from process_loop_written[OF this] assms(2) show ?thesis by simp
qed

subsection \<open>C3: failures stay inside the loop\<close>


lemma not_processed_to_extract:
  assumes "path_exists (w p)" "db p = None \<or> (\<exists>r. db p = Some r \<and> status r \<noteq> ''processed'')"
  shows "to_extract force (processed_files_of force db) w p"
  using assms by (auto simp: to_extract_def unchanged_def processed_files_of_def)

subsection \<open>C1: failed files\<close>



subsection \<open>C10: the skip test\<close>



subsection \<open>C8: a second run\<close>



subsection \<open>The concrete directory\<close>

lemma sample_world_simps [simp]:
  "sample_world ''/photos/a.jpg'' = corrupt_file"
  "sample_world ''/photos/b.jpg'' = sound_file"
  "sample_world ''/photos/c.jpg'' = epoch_file"
  "sample_world ''/photos/d.jpg'' = vanished_file"
  "sample_world ''/photos/e.jpg'' = bad_gps_file"
  "sample_world ''/photos/f.jpg'' = unwritable_file"
  by (simp_all add: sample_world_def)

lemma sample_files [simp]:
  "shutdown_requested corrupt_file = False" "path_exists corrupt_file = True"
  "mtime corrupt_file = Some 1221229800" "extraction corrupt_file = Inl (ExifReadError ''truncated IFD'')"
  "write_failed_inner corrupt_file = None"
  "shutdown_requested sound_file = False" "path_exists sound_file = True"
  "mtime sound_file = Some 1221229801" "extraction sound_file = Inr plain_tags"
  "write_processed sound_file = None"
  "shutdown_requested epoch_file = False" "path_exists epoch_file = True"
  "mtime epoch_file = Some 0" "extraction epoch_file = Inr plain_tags"
  "shutdown_requested vanished_file = False" "path_exists vanished_file = False"
  "shutdown_requested bad_gps_file = False" "path_exists bad_gps_file = True"
  "extraction bad_gps_file = Inr bad_gps_tags" "write_processed bad_gps_file = None"
  "shutdown_requested unwritable_file = False" "path_exists unwritable_file = True"
  "extraction unwritable_file = Inl (ExifReadError ''truncated IFD'')"
  "write_failed_inner unwritable_file = Some ''surrogates not allowed''"
  "write_failed_outer unwritable_file = Some ''surrogates not allowed''"
  by (simp_all add: corrupt_file_def sound_file_def epoch_file_def vanished_file_def
        bad_gps_file_def unwritable_file_def)

lemma to_extract_fresh: "path_exists (w p) \<Longrightarrow> to_extract force (processed_files_of force Map.empty) w p"
  by (rule not_processed_to_extract) simp_all

lemma stored_corrupt:
  "stored_row skip locs dcos corrupt_file p
     = Some (failed_record corrupt_file p ''EXIF read error: truncated IFD'')"
  by (simp add: stored_row_def)









theorem written_records_keep_invariant_witness:
  "record_invariant (failed_record corrupt_file ''/photos/a.jpg'' ''EXIF read error: truncated IFD'')
   \<and> recorded_from sample_world ''/photos/a.jpg''
        (failed_record corrupt_file ''/photos/a.jpg'' ''EXIF read error: truncated IFD'')"
proof -
  have h: "\<forall>q \<in> set [''/photos/a.jpg'']. \<not> shutdown_requested (sample_world q)" by simp
  have a: "to_extract False (processed_files_of False Map.empty) sample_world ''/photos/a.jpg''"
    by (rule to_extract_fresh) simp
  have h1: "photos (snd (process_images False True None double_cos_radians sample_world
                [''/photos/a.jpg''] Map.empty)) ''/photos/a.jpg''
            = Some (failed_record corrupt_file ''/photos/a.jpg'' ''EXIF read error: truncated IFD'')"
    using a by (simp add: process_images_photos[OF h] stored_corrupt)
  have h2: "Map.empty ''/photos/a.jpg''
              \<noteq> Some (failed_record corrupt_file ''/photos/a.jpg'' ''EXIF read error: truncated IFD'')"
    by simp
  show ?thesis using written_records_keep_invariant[OF h1 h2] .
qed









end
